theory Spec2Isabelle
  imports Main "HOL-Library.AList"
begin

chapter \<open>The model\<close>

section \<open>Dispatcher error handlers (lib/dispatcher/error-handlers.ts)\<close>

text \<open>
  The handlers are asynchronous functions \<open>(error, dispatcher) \<Rightarrow> Promise<Error | null>\<close>.
  A settled promise is modelled by a value of \<open>Error + Error option\<close>: \<open>Inr None\<close> is a
  promise resolved with \<open>null\<close>, \<open>Inr (Some e)\<close> one resolved with the error \<open>e\<close>, and
  \<open>Inl x\<close> a rejected promise (the handler threw \<open>x\<close>).
\<close>

text \<open>
  \<open>GitErrorType\<close> is the error enumeration of the package \<open>git-kitchen-sink\<close>. The handler
  names one member; every other member is \<open>OtherGitErrorType k\<close>.
\<close>

datatype GitErrorType = NotAGitRepository | OtherGitErrorType nat

text \<open>
  A JavaScript error value. \<open>GitError g m\<close> is an instance of the class \<open>GitError\<close> of
  \<open>lib/git/core\<close> whose \<open>result.gitError\<close> is \<open>g\<close> (\<open>None\<close> for \<open>null\<close>);
  \<open>OtherError m\<close> is an error of any other class.
\<close>

datatype Error = GitError "GitErrorType option" string | OtherError string

text \<open>
  \<open>SelectionType\<close> is declared in \<open>lib/app-state\<close>. The handler names two members; every
  other member of the enumeration is \<open>OtherSelectionType k\<close>.
\<close>

datatype SelectionType = Repository | MissingRepository | OtherSelectionType nat

record RepositoryModel =
  repositoryId :: nat
  missing :: bool

record SelectedState =
  selectionType :: SelectionType
  repository :: RepositoryModel

record AppState =
  selectedState :: "SelectedState option"

text \<open>
  The dispatcher is an external collaborator. A handler's interaction with it is the list
  of calls it makes, in order; the dispatcher itself decides for each call whether the
  returned promise resolves (\<open>None\<close>) or rejects with an error (\<open>Some x\<close>).
\<close>

datatype DispatcherCall =
  PresentError Error
| UpdateRepositoryMissing RepositoryModel bool

type_synonym Dispatcher = "DispatcherCall \<Rightarrow> Error option"

type_synonym HandlerResult = "DispatcherCall list \<times> (Error + Error option)"

text \<open>
  \<^verbatim>\<open>await dispatcher.presentError(error); return null\<close>
\<close>

definition defaultErrorHandler :: "Error \<Rightarrow> Dispatcher \<Rightarrow> HandlerResult" where
  "defaultErrorHandler error dispatcher =
     ([PresentError error],
      (case dispatcher (PresentError error) of
         Some thrown \<Rightarrow> Inl thrown
       | None \<Rightarrow> Inr None))"

text \<open>
  \<^verbatim>\<open>error instanceof GitError && error.result.gitError === GitErrorType.NotAGitRepository\<close>
\<close>

fun isNotAGitRepository :: "Error \<Rightarrow> bool" where
  "isNotAGitRepository (GitError g m) = (g = Some NotAGitRepository)"
| "isNotAGitRepository (OtherError m) = False"

text \<open>
  The handler built by \<open>missingRepositoryHandler(appStore)\<close>. The first argument is the
  state that \<open>appStore.getState()\<close> returns when the handler runs.
\<close>

definition missingRepositoryHandler :: "AppState \<Rightarrow> Error \<Rightarrow> Dispatcher \<Rightarrow> HandlerResult" where
  "missingRepositoryHandler appState error dispatcher =
     (case selectedState appState of
        None \<Rightarrow> ([], Inr (Some error))
      | Some sel \<Rightarrow>
          if selectionType sel \<noteq> MissingRepository \<and> selectionType sel \<noteq> Repository
          then ([], Inr (Some error))
          else if missing (repository sel) then ([], Inr None)
          else if isNotAGitRepository error
          then ([UpdateRepositoryMissing (repository sel) True],
                (case dispatcher (UpdateRepositoryMissing (repository sel) True) of
                   Some thrown \<Rightarrow> Inl thrown
                 | None \<Rightarrow> Inr None))
          else ([], Inr (Some error)))"

text \<open>The conditions under which the handler takes the error off the chain.\<close>

definition selectionHasRepository :: "AppState \<Rightarrow> bool" where
  "selectionHasRepository appState =
     (case selectedState appState of
        None \<Rightarrow> False
      | Some sel \<Rightarrow> selectionType sel = MissingRepository \<or> selectionType sel = Repository)"

definition selectedRepositoryMissing :: "AppState \<Rightarrow> bool" where
  "selectedRepositoryMissing appState =
     (case selectedState appState of
        None \<Rightarrow> False
      | Some sel \<Rightarrow> missing (repository sel))"

text \<open>Concrete values used in the examples below.\<close>

definition repoA :: RepositoryModel where
  "repoA = \<lparr> repositoryId = 1, missing = False \<rparr>"

definition repoAMissing :: RepositoryModel where
  "repoAMissing = \<lparr> repositoryId = 1, missing = True \<rparr>"

definition stateSelecting :: "SelectionType \<Rightarrow> RepositoryModel \<Rightarrow> AppState" where
  "stateSelecting t r = \<lparr> selectedState = Some \<lparr> selectionType = t, repository = r \<rparr> \<rparr>"

definition resolving :: Dispatcher where
  "resolving = (\<lambda>c. None)"

definition rejecting :: "Error \<Rightarrow> Dispatcher" where
  "rejecting x = (\<lambda>c. Some x)"

section \<open>The pipeline builder (lib/markdown-filters/node-filter.ts, lines 43-64)\<close>

text \<open>
  JavaScript objects have identity: \<open>===\<close> on two objects compares references, not
  contents. A reference is a natural number. The builder's arguments are the reference of
  the emoji \<open>Map\<close> and the reference of the \<open>GitHubRepository\<close> object; every \<open>new\<close>
  and every array literal takes the next unused reference.
\<close>

type_synonym ref = nat

text \<open>The nine filter classes, each with the reference its constructor captured.\<close>

datatype FilterKind =
  IssueMentionFilter ref
| IssueLinkFilter ref
| EmojiFilter ref
| TeamMentionFilter ref
| MentionFilter ref
| CommitMentionFilter ref
| CommitMentionLinkFilter ref
| VideoTagFilter
| VideoLinkFilter

record FilterInstance =
  instanceRef :: ref
  kind :: FilterKind

record Pipeline =
  arrayRef :: ref
  elements :: "FilterInstance list"

text \<open>The classes in the order of the array literal, lines 48-62.\<close>

definition pipeKinds :: "ref \<Rightarrow> ref \<Rightarrow> FilterKind list" where
  "pipeKinds emoji repo =
     [IssueMentionFilter repo,
      IssueLinkFilter repo,
      EmojiFilter emoji,
      TeamMentionFilter repo,
      MentionFilter repo,
      CommitMentionFilter repo,
      CommitMentionLinkFilter repo,
      VideoTagFilter,
      VideoLinkFilter]"

text \<open>\<open>allocate n ks\<close> constructs one instance per class, at references \<open>n, n + 1, \<dots>\<close>\<close>

fun allocate :: "ref \<Rightarrow> FilterKind list \<Rightarrow> FilterInstance list" where
  "allocate n [] = []"
| "allocate n (k # ks) = \<lparr> instanceRef = n, kind = k \<rparr> # allocate (Suc n) ks"

text \<open>
  The arrow function that \<open>memoizeOne\<close> wraps: it builds the nine instances and the array
  that holds them, and returns the array with the next unused reference.
\<close>

definition newPipeline :: "ref \<Rightarrow> ref \<Rightarrow> ref \<Rightarrow> Pipeline \<times> ref" where
  "newPipeline emoji repo n =
     (let ks = pipeKinds emoji repo
      in (\<lparr> arrayRef = n + length ks, elements = allocate n ks \<rparr>, Suc (n + length ks)))"

text \<open>
  \<open>memoizeOne\<close> (package \<open>memoize-one\<close>) keeps the arguments and the result of the last
  call only. A call whose arguments are all \<open>===\<close> to the remembered ones returns the
  remembered result without calling the wrapped function; any other call runs the wrapped
  function and overwrites what is remembered. \<open>memo = None\<close> is the state before the
  first call.
\<close>

record BuilderState =
  memo :: "((ref \<times> ref) \<times> Pipeline) option"
  nextRef :: ref

definition initialBuilder :: BuilderState where
  "initialBuilder = \<lparr> memo = None, nextRef = 0 \<rparr>"

definition rebuild :: "ref \<Rightarrow> ref \<Rightarrow> BuilderState \<Rightarrow> Pipeline \<times> BuilderState" where
  "rebuild emoji repo st =
     (case newPipeline emoji repo (nextRef st) of
        (p, n) \<Rightarrow> (p, \<lparr> memo = Some ((emoji, repo), p), nextRef = n \<rparr>))"

definition buildCustomMarkDownNodeFilterPipe ::
    "ref \<Rightarrow> ref \<Rightarrow> BuilderState \<Rightarrow> Pipeline \<times> BuilderState" where
  "buildCustomMarkDownNodeFilterPipe emoji repo st =
     (case memo st of
        None \<Rightarrow> rebuild emoji repo st
      | Some (lastArgs, lastResult) \<Rightarrow>
          if fst lastArgs = emoji \<and> snd lastArgs = repo then (lastResult, st)
          else rebuild emoji repo st)"

text \<open>The state of the builder after a history of calls, oldest first.\<close>

fun afterCalls :: "(ref \<times> ref) list \<Rightarrow> BuilderState \<Rightarrow> BuilderState" where
  "afterCalls [] st = st"
| "afterCalls (c # cs) st =
     afterCalls cs (snd (buildCustomMarkDownNodeFilterPipe (fst c) (snd c) st))"

text \<open>Every object reference a pipeline holds: the array's and its elements'.\<close>

definition pipelineRefs :: "Pipeline \<Rightarrow> ref set" where
  "pipelineRefs p = insert (arrayRef p) (set (map instanceRef (elements p)))"

fun isTeamMention :: "FilterKind \<Rightarrow> bool" where
  "isTeamMention (TeamMentionFilter r) = True"
| "isTeamMention k = False"

fun isMention :: "FilterKind \<Rightarrow> bool" where
  "isMention (MentionFilter r) = True"
| "isMention k = False"

text \<open>The positions, in order, of the elements of a list that satisfy a predicate.\<close>

fun positionsFrom :: "nat \<Rightarrow> ('a \<Rightarrow> bool) \<Rightarrow> 'a list \<Rightarrow> nat list" where
  "positionsFrom i P [] = []"
| "positionsFrom i P (x # xs) =
     (if P x then i # positionsFrom (Suc i) P xs else positionsFrom (Suc i) P xs)"

definition positions :: "('a \<Rightarrow> bool) \<Rightarrow> 'a list \<Rightarrow> nat list" where
  "positions P xs = positionsFrom 0 P xs"

section \<open>Thrown values\<close>

text \<open>
  A value thrown by a callee of the date module or of the pipeline executor: an error of
  the platform, by its name, or whatever other code throws.
\<close>

datatype Exception = RangeError | HierarchyRequestError | NotFoundError | Thrown string

section \<open>Date formatting (src/unnamed/part_000)\<close>

text \<open>
  The first argument of \<open>getDateFormatter\<close> has type \<open>string | string[]\<close>; the options are
  a plain object, kept as its list of keys and values.
\<close>

datatype LocaleArg = OneLocale string | LocaleList "string list"

type_synonym Options = "(string \<times> string) list"

text \<open>
  A formatter remembers what \<open>Intl.DateTimeFormat\<close> was called with; \<open>None\<close> is the
  argument \<open>undefined\<close>. \<open>Intl\<close> belongs to the platform: \<open>accepts\<close> says for which
  arguments the constructor returns rather than throws a \<open>RangeError\<close>, and \<open>render\<close>
  is the formatter's \<open>format\<close> method on a time value.
\<close>

datatype Formatter = Formatter "LocaleArg option" Options

record Intl =
  accepts :: "LocaleArg option \<Rightarrow> Options \<Rightarrow> bool"
  render :: "Formatter \<Rightarrow> int \<Rightarrow> string"

datatype IntlCall =
  Construct "LocaleArg option" Options
| Format Formatter int

text \<open>
  \<open>QuickLRU\<close> (package \<open>quick-lru\<close>) keeps two generations of entries: a new key goes
  into \<open>cache\<close>; once \<open>maxSize\<close> keys were added, \<open>cache\<close> becomes \<open>oldCache\<close> (the
  previous \<open>oldCache\<close> is dropped) and \<open>cache\<close> starts empty. A key found in \<open>oldCache\<close>
  is moved back into \<open>cache\<close>.
\<close>

record ('k, 'v) QuickLRU =
  maxSize :: nat
  cache :: "('k \<times> 'v) list"
  oldCache :: "('k \<times> 'v) list"
  lruSize :: nat

definition newQuickLRU :: "nat \<Rightarrow> ('k, 'v) QuickLRU" where
  "newQuickLRU n = \<lparr> maxSize = n, cache = [], oldCache = [], lruSize = 0 \<rparr>"

definition lruAdd :: "'k \<Rightarrow> 'v \<Rightarrow> ('k, 'v) QuickLRU \<Rightarrow> ('k, 'v) QuickLRU" where
  "lruAdd k v q =
     (let c = AList.update k v (cache q); n = Suc (lruSize q)
      in if maxSize q \<le> n then q\<lparr> cache := [], oldCache := c, lruSize := 0 \<rparr>
         else q\<lparr> cache := c, lruSize := n \<rparr>)"

definition lruGet :: "'k \<Rightarrow> ('k, 'v) QuickLRU \<Rightarrow> 'v option \<times> ('k, 'v) QuickLRU" where
  "lruGet k q =
     (case map_of (cache q) k of
        Some v \<Rightarrow> (Some v, q)
      | None \<Rightarrow>
          (case map_of (oldCache q) k of
             Some v \<Rightarrow> (Some v, lruAdd k v (q\<lparr> oldCache := AList.delete k (oldCache q) \<rparr>))
           | None \<Rightarrow> (None, q)))"

definition lruSet :: "'k \<Rightarrow> 'v \<Rightarrow> ('k, 'v) QuickLRU \<Rightarrow> ('k, 'v) QuickLRU" where
  "lruSet k v q =
     (if map_of (cache q) k \<noteq> None then q\<lparr> cache := AList.update k v (cache q) \<rparr>
      else lruAdd k v q)"

text \<open>
  The module's variables (\<open>dateLocale\<close>, the cache inside \<open>getDateFormatter\<close>) and what
  the module did to the outside: its calls into \<open>Intl\<close> and the messages it passed to
  \<open>log.error\<close>, both oldest first.
\<close>

record DateModule =
  dateLocale :: "string option"
  formatterCache :: "(LocaleArg \<times> Options, Formatter) QuickLRU"
  intlCalls :: "IntlCall list"
  errorLog :: "string list"

definition defaultLocale :: string where
  "defaultLocale = ''en-US''"

definition initialDateModule :: DateModule where
  "initialDateModule =
     \<lparr> dateLocale = None, formatterCache = newQuickLRU 100, intlCalls = [], errorLog = [] \<rparr>"

text \<open>
  The function that \<open>mem\<close> wraps, lines 13-19:
  \<^verbatim>\<open>try { return Intl.DateTimeFormat(locale, options) }
  catch (e) { return Intl.DateTimeFormat(undefined, options) }\<close>
\<close>

definition newDateFormatter ::
    "Intl \<Rightarrow> LocaleArg \<Rightarrow> Options \<Rightarrow> (Exception + Formatter) \<times> IntlCall list" where
  "newDateFormatter intl locale options =
     (if accepts intl (Some locale) options
      then (Inr (Formatter (Some locale) options), [Construct (Some locale) options])
      else if accepts intl None options
      then (Inr (Formatter None options),
            [Construct (Some locale) options, Construct None options])
      else (Inl RangeError, [Construct (Some locale) options, Construct None options]))"

text \<open>
  \<open>mem\<close> (package \<open>mem\<close>) with the cache and the key of lines 20-23: the key is the JSON
  text of the arguments, which the pair of the arguments stands for. A hit returns the
  stored formatter; a miss calls the wrapped function and stores what it returns, and
  stores nothing when it throws.
\<close>

definition getDateFormatter ::
    "Intl \<Rightarrow> LocaleArg \<Rightarrow> Options \<Rightarrow> DateModule \<Rightarrow> (Exception + Formatter) \<times> DateModule" where
  "getDateFormatter intl locale options st =
     (case lruGet (locale, options) (formatterCache st) of
        (Some f, q) \<Rightarrow> (Inr f, st\<lparr> formatterCache := q \<rparr>)
      | (None, q) \<Rightarrow>
          (case newDateFormatter intl locale options of
             (Inl e, calls) \<Rightarrow>
               (Inl e, st\<lparr> formatterCache := q, intlCalls := intlCalls st @ calls \<rparr>)
           | (Inr f, calls) \<Rightarrow>
               (Inr f, st\<lparr> formatterCache := lruSet (locale, options) f q,
                            intlCalls := intlCalls st @ calls \<rparr>)))"

text \<open>
  A \<open>Date\<close> holds a time value: an integral number of milliseconds, or \<open>NaN\<close>
  (\<open>InvalidDate\<close>), for which alone \<open>isNaN(date.valueOf())\<close> is true.
\<close>

datatype Date = InvalidDate | TimeValue int

text \<open>
  Line 32: \<^verbatim>\<open>dateLocale ? [dateLocale, defaultLocale] : defaultLocale\<close>. The empty string
  is falsy, as \<open>undefined\<close> is.
\<close>

definition localeInEffect :: "DateModule \<Rightarrow> LocaleArg" where
  "localeInEffect st =
     (case dateLocale st of
        None \<Rightarrow> OneLocale defaultLocale
      | Some l \<Rightarrow> if l = [] then OneLocale defaultLocale else LocaleList [l, defaultLocale])"

text \<open>The locales that an argument of \<open>getDateFormatter\<close> names.\<close>

definition localeNames :: "LocaleArg \<Rightarrow> string list" where
  "localeNames a = (case a of OneLocale l \<Rightarrow> [l] | LocaleList ls \<Rightarrow> ls)"

definition formatDate ::
    "Intl \<Rightarrow> Date \<Rightarrow> Options \<Rightarrow> DateModule \<Rightarrow> (Exception + string) \<times> DateModule" where
  "formatDate intl date options st =
     (let locale = localeInEffect st
      in case date of
           InvalidDate \<Rightarrow> (Inr ''Invalid date'', st)
         | TimeValue t \<Rightarrow>
             (case getDateFormatter intl locale options st of
                (Inl e, st') \<Rightarrow> (Inl e, st')
              | (Inr f, st') \<Rightarrow>
                  (Inr (render intl f t), st'\<lparr> intlCalls := intlCalls st' @ [Format f t] \<rparr>)))"

text \<open>
  \<open>parse\<close> belongs to the package \<open>bcp-47\<close> and is a parameter of the model. Of the
  schema it returns, \<open>setDateLocale\<close> reads the field \<open>region\<close> only, which JavaScript
  can find \<open>undefined\<close>, \<open>null\<close> or a string.
\<close>

datatype 'a Optional = Undefined | Null | Defined 'a

record Schema =
  region :: "string Optional"

type_synonym Parser = "string \<Rightarrow> Exception + Schema"

text \<open>\<^verbatim>\<open>locale.replaceAll('_', '-')\<close>\<close>

definition replaceUnderscores :: "string \<Rightarrow> string" where
  "replaceUnderscores l = map (\<lambda>c. if c = CHR ''_'' then CHR ''-'' else c) l"

text \<open>
  \<open>setDateLocale\<close>, lines 38-56. The result is the value returned and the module after
  the call; the function has no path that throws.
\<close>

definition setDateLocale ::
    "Parser \<Rightarrow> string option \<Rightarrow> DateModule \<Rightarrow> string option \<times> DateModule" where
  "setDateLocale parse locale st =
     (case locale of
        None \<Rightarrow> (None, st\<lparr> dateLocale := None \<rparr>)
      | Some l \<Rightarrow>
          (case parse (replaceUnderscores l) of
             Inl e \<Rightarrow>
               (dateLocale st, st\<lparr> errorLog := errorLog st @ [''Failed setting date locale''] \<rparr>)
           | Inr schema \<Rightarrow>
               (case region schema of
                  Undefined \<Rightarrow>
                    (None, st\<lparr> dateLocale := None,
                               errorLog := errorLog st @ [''Failed parsing locale from '' @ l] \<rparr>)
                | Null \<Rightarrow> (Some ''en-US'', st\<lparr> dateLocale := Some ''en-US'' \<rparr>)
                | Defined r \<Rightarrow> (Some (''en-'' @ r), st\<lparr> dateLocale := Some (''en-'' @ r) \<rparr>))))"

subsection \<open>The parser of the package bcp-47\<close>

text \<open>
  \<open>parse\<close> is not part of the sources. What follows is the package's function as far as
  it decides the field \<open>region\<close>, for a tag of ASCII characters and with the option
  \<open>forgiving\<close> that line 44 passes. The schema it starts from has \<open>region: null\<close>. The
  function works on the tag in lower case and cuts its answers out of the tag as given.
\<close>

definition toLowerCase :: "string \<Rightarrow> string" where
  "toLowerCase s =
     map (\<lambda>c. case map_of (zip ''ABCDEFGHIJKLMNOPQRSTUVWXYZ'' ''abcdefghijklmnopqrstuvwxyz'') c of
                 Some l \<Rightarrow> l
               | None \<Rightarrow> c) s"

text \<open>
  \<open>charCodeAt\<close> past the end of a string gives \<open>NaN\<close> (\<open>None\<close>), which is neither
  a letter nor a digit.
\<close>

definition charCodeAt :: "string \<Rightarrow> nat \<Rightarrow> char option" where
  "charCodeAt s i = (if i < length s then Some (s ! i) else None)"

definition isAlphabetical :: "char option \<Rightarrow> bool" where
  "isAlphabetical code =
     (case code of
        None \<Rightarrow> False
      | Some c \<Rightarrow> c \<in> set ''abcdefghijklmnopqrstuvwxyz'' \<or> c \<in> set ''ABCDEFGHIJKLMNOPQRSTUVWXYZ'')"

definition isDecimal :: "char option \<Rightarrow> bool" where
  "isDecimal code = (case code of None \<Rightarrow> False | Some c \<Rightarrow> c \<in> set ''0123456789'')"

definition slice :: "string \<Rightarrow> nat \<Rightarrow> nat \<Rightarrow> string" where
  "slice s from until = take (until - from) (drop from s)"

text \<open>
  The language: the letters the tag starts with, nine at most. Two to eight letters are
  a language; anything else leaves the schema empty.
\<close>

definition languageEnd :: "string \<Rightarrow> nat" where
  "languageEnd v = min 9 (length (takeWhile (\<lambda>c. isAlphabetical (Some c)) v))"

text \<open>
  After a language of two or three letters: subtags of exactly three letters, the
  extended language subtags. A fourth one is an error, and the forgiving parser returns
  what it has, which is no region.
\<close>

definition extlangAt :: "string \<Rightarrow> nat \<Rightarrow> bool" where
  "extlangAt v i =
     (charCodeAt v i = Some CHR ''-''
      \<and> isAlphabetical (charCodeAt v (i + 1))
      \<and> isAlphabetical (charCodeAt v (i + 2))
      \<and> isAlphabetical (charCodeAt v (i + 3))
      \<and> \<not> isAlphabetical (charCodeAt v (i + 4)))"

function eatExtlangs :: "nat \<Rightarrow> string \<Rightarrow> nat \<Rightarrow> nat option" where
  "eatExtlangs groups v i =
     (if extlangAt v i
      then (if 2 < groups then None else eatExtlangs (Suc groups) v (i + 4))
      else Some i)"
  by pat_completeness auto
termination
  by (relation "measure (\<lambda>(groups, v, i). 3 - groups)") auto

text \<open>A subtag of exactly four letters is the script.\<close>

definition scriptAt :: "string \<Rightarrow> nat \<Rightarrow> bool" where
  "scriptAt v i =
     (charCodeAt v i = Some CHR ''-''
      \<and> isAlphabetical (charCodeAt v (i + 1))
      \<and> isAlphabetical (charCodeAt v (i + 2))
      \<and> isAlphabetical (charCodeAt v (i + 3))
      \<and> isAlphabetical (charCodeAt v (i + 4))
      \<and> \<not> isAlphabetical (charCodeAt v (i + 5)))"

text \<open>The region: a subtag of exactly two letters, or else of exactly three digits.\<close>

definition regionAt :: "string \<Rightarrow> string \<Rightarrow> nat \<Rightarrow> string Optional" where
  "regionAt source v i =
     (if charCodeAt v i \<noteq> Some CHR ''-'' then Null
      else if isAlphabetical (charCodeAt v (i + 1))
              \<and> isAlphabetical (charCodeAt v (i + 2))
              \<and> \<not> isAlphabetical (charCodeAt v (i + 3))
      then Defined (slice source (i + 1) (i + 3))
      else if isDecimal (charCodeAt v (i + 1))
              \<and> isDecimal (charCodeAt v (i + 2))
              \<and> isDecimal (charCodeAt v (i + 3))
              \<and> \<not> isDecimal (charCodeAt v (i + 4))
      then Defined (slice source (i + 1) (i + 4))
      else Null)"

definition langtagRegion :: "string \<Rightarrow> string Optional" where
  "langtagRegion source =
     (let v = toLowerCase source; i = languageEnd v
      in if 1 < i \<and> i < 9
         then (case (if i < 4 then eatExtlangs 0 v i else Some i) of
                 None \<Rightarrow> Null
               | Some j \<Rightarrow> regionAt source v (if scriptAt v j then j + 5 else j))
         else Null)"

text \<open>
  The tags the package answers from a table, in lower case: each with the tag it is
  parsed as instead, or \<open>None\<close> when the schema keeps the tag whole and has no region.
\<close>

definition grandfathered :: "(string \<times> string option) list" where
  "grandfathered =
     [(''en-gb-oed'', Some ''en-GB-oxendict''),
      (''i-ami'', Some ''ami''),
      (''i-bnn'', Some ''bnn''),
      (''i-default'', None),
      (''i-enochian'', None),
      (''i-hak'', Some ''hak''),
      (''i-klingon'', Some ''tlh''),
      (''i-lux'', Some ''lb''),
      (''i-mingo'', None),
      (''i-navajo'', Some ''nv''),
      (''i-pwn'', Some ''pwn''),
      (''i-tao'', Some ''tao''),
      (''i-tay'', Some ''tay''),
      (''i-tsu'', Some ''tsu''),
      (''sgn-be-fr'', Some ''sfb''),
      (''sgn-be-nl'', Some ''vgt''),
      (''sgn-ch-de'', Some ''sgg''),
      (''art-lojban'', Some ''jbo''),
      (''cel-gaulish'', None),
      (''no-bok'', Some ''nb''),
      (''no-nyn'', Some ''nn''),
      (''zh-guoyu'', Some ''cmn''),
      (''zh-hakka'', Some ''hak''),
      (''zh-min'', None),
      (''zh-min-nan'', Some ''nan''),
      (''zh-xiang'', Some ''hsn'')]"

definition bcp47Region :: "string \<Rightarrow> string Optional" where
  "bcp47Region tag =
     (case map_of grandfathered (toLowerCase tag) of
        Some (Some replacement) \<Rightarrow> langtagRegion replacement
      | Some None \<Rightarrow> Null
      | None \<Rightarrow> langtagRegion tag)"

definition bcp47Parse :: Parser where
  "bcp47Parse tag = Inr \<lparr> region = bcp47Region tag \<rparr>"

text \<open>A platform used in the examples below.\<close>

definition anyIntl :: Intl where
  "anyIntl = \<lparr> accepts = (\<lambda>l opts. True), render = (\<lambda>f t. ''formatted'') \<rparr>"

section \<open>The pipeline executor (lib/markdown-filters/node-filter.ts, lines 75-115)\<close>

subsection \<open>The document tree\<close>

text \<open>
  A DOM node is an object; its reference is a natural number. The tree is the two
  properties the executor reads and changes, for every node: \<open>parentNode\<close> (\<open>None\<close> is
  \<open>null\<close>: the node is a root or newly made) and \<open>childNodes\<close>. A node that a filter
  makes is a reference with no parent and no children until it is inserted.
\<close>

type_synonym node = nat

record Document =
  parentNode :: "node \<Rightarrow> node option"
  childNodes :: "node \<Rightarrow> node list"

text \<open>\<open>inclusiveAncestor d a n\<close>: \<open>a\<close> is \<open>n\<close> or is reached from \<open>n\<close> by \<open>parentNode\<close>.\<close>

inductive inclusiveAncestor :: "Document \<Rightarrow> node \<Rightarrow> node \<Rightarrow> bool" for d :: Document where
  self: "inclusiveAncestor d n n"
| up: "parentNode d n = Some p \<Longrightarrow> inclusiveAncestor d a p \<Longrightarrow> inclusiveAncestor d a n"

code_pred inclusiveAncestor .

text \<open>The DOM's \<open>remove\<close>: take a node, with its subtree, out of its parent's children.\<close>

definition detach :: "node \<Rightarrow> Document \<Rightarrow> Document" where
  "detach n d =
     (case parentNode d n of
        None \<Rightarrow> d
      | Some q \<Rightarrow>
          d\<lparr> parentNode := (parentNode d)(n := None),
             childNodes := (childNodes d)(q := remove1 n (childNodes d q)) \<rparr>)"

definition nextSibling :: "Document \<Rightarrow> node \<Rightarrow> node option" where
  "nextSibling d n =
     (case parentNode d n of
        None \<Rightarrow> None
      | Some p \<Rightarrow>
          (case dropWhile (\<lambda>x. x \<noteq> n) (childNodes d p) of
             x # y # rest \<Rightarrow> Some y
           | _ \<Rightarrow> None))"

text \<open>Put a node into a list of children before the reference child, or last for \<open>None\<close>.\<close>

fun placeBefore :: "node \<Rightarrow> node option \<Rightarrow> node list \<Rightarrow> node list" where
  "placeBefore new None xs = xs @ [new]"
| "placeBefore new (Some c) [] = [new]"
| "placeBefore new (Some c) (x # xs) =
     (if x = c then new # x # xs else x # placeBefore new (Some c) xs)"

text \<open>
  \<open>parent.insertBefore(new, child)\<close> as the DOM standard defines it: it throws when
  \<open>new\<close> is an inclusive ancestor of \<open>parent\<close> or when \<open>child\<close> is not a child of
  \<open>parent\<close>; otherwise it takes \<open>new\<close> out of the parent it has, if any, and puts it
  before \<open>child\<close> (before \<open>child\<close>'s next sibling when \<open>new\<close> is \<open>child\<close> itself). The
  standard's checks on the kinds of node are left out: nodes have no kind here.
\<close>

definition insertBefore :: "node \<Rightarrow> node \<Rightarrow> node \<Rightarrow> Document \<Rightarrow> Exception + Document" where
  "insertBefore parent new child d =
     (if inclusiveAncestor d new parent then Inl HierarchyRequestError
      else if parentNode d child \<noteq> Some parent then Inl NotFoundError
      else
        let reference = (if child = new then nextSibling d new else Some child);
            d1 = detach new d
        in Inr (d1\<lparr> parentNode := (parentNode d1)(new := Some parent),
                    childNodes := (childNodes d1)
                      (parent := placeBefore new reference (childNodes d1 parent)) \<rparr>))"

definition removeChild :: "node \<Rightarrow> node \<Rightarrow> Document \<Rightarrow> Exception + Document" where
  "removeChild parent child d =
     (if parentNode d child \<noteq> Some parent then Inl NotFoundError else Inr (detach child d))"

subsection \<open>Filters and tree walkers\<close>

text \<open>
  A \<open>TreeWalker\<close> is an object of the platform that a filter creates. Its \<open>nextNode()\<close>
  reads the tree as it is at the moment of the call and moves the walker: \<open>advance\<close> maps
  the walker's position and the tree to the node returned (\<open>None\<close> is \<open>null\<close>) and the new
  position.
\<close>

record 'w TreeWalker =
  position :: 'w
  advance :: "'w \<Rightarrow> Document \<Rightarrow> node option \<times> 'w"

definition nextNode :: "'w TreeWalker \<Rightarrow> Document \<Rightarrow> node option \<times> 'w TreeWalker" where
  "nextNode walker d =
     (case advance walker (position walker) d of
        (n, pos) \<Rightarrow> (n, walker\<lparr> position := pos \<rparr>))"

text \<open>
  The interface \<open>INodeFilter\<close>, lines 13-34. \<open>filterNode\<close> is its method \<open>filter\<close>: the
  promise it returns is rejected (\<open>Inl\<close>), resolved with \<open>null\<close> (\<open>Inr None\<close>) or resolved
  with an array of nodes (\<open>Inr (Some rs)\<close>). It may read the tree and does not change it.
\<close>

record 'w INodeFilter =
  createFilterTreeWalker :: "Document \<Rightarrow> 'w TreeWalker"
  filterNode :: "node \<Rightarrow> Document \<Rightarrow> Exception + node list option"

subsection \<open>applyNodeFilter\<close>

text \<open>
  Lines 110-112:
  \<^verbatim>\<open>for (const replacementNode of replacementNodes) {
    currentNode.parentNode?.insertBefore(replacementNode, currentNode) }\<close>
  The parent is read again for every replacement; without a parent nothing is inserted.
\<close>

fun insertReplacements :: "node list \<Rightarrow> node \<Rightarrow> Document \<Rightarrow> Exception + Document" where
  "insertReplacements [] currentNode d = Inr d"
| "insertReplacements (r # rs) currentNode d =
     (case parentNode d currentNode of
        None \<Rightarrow> insertReplacements rs currentNode d
      | Some parent \<Rightarrow>
          (case insertBefore parent r currentNode d of
             Inl e \<Rightarrow> Inl e
           | Inr d' \<Rightarrow> insertReplacements rs currentNode d'))"

text \<open>Line 113: \<^verbatim>\<open>currentNode.parentNode?.removeChild(currentNode)\<close>\<close>

definition removeCurrent :: "node \<Rightarrow> Document \<Rightarrow> Exception + Document" where
  "removeCurrent currentNode d =
     (case parentNode d currentNode of
        None \<Rightarrow> Inr d
      | Some parent \<Rightarrow> removeChild parent currentNode d)"

text \<open>Lines 106-113: what the loop body does to the tree once the filter has answered.\<close>

definition replaceCurrent :: "node list option \<Rightarrow> node \<Rightarrow> Document \<Rightarrow> Exception + Document" where
  "replaceCurrent replacementNodes currentNode d =
     (case replacementNodes of
        None \<Rightarrow> Inr d
      | Some rs \<Rightarrow>
          (case insertReplacements rs currentNode d of
             Inl e \<Rightarrow> Inl e
           | Inr d' \<Rightarrow> removeCurrent currentNode d'))"

text \<open>
  One turn of the \<open>while\<close> loop, lines 103-113, from a \<open>textNode\<close> that is not \<open>null\<close>:
  ask the filter, call \<open>walker.nextNode()\<close>, then change the tree. The result is the
  loop's state for the next turn, or what was thrown.
\<close>

definition loopBody ::
    "'w INodeFilter \<Rightarrow> 'w TreeWalker \<Rightarrow> node \<Rightarrow> Document \<Rightarrow>
      Exception + ('w TreeWalker \<times> node option \<times> Document)" where
  "loopBody nodeFilter walker textNode d =
     (case filterNode nodeFilter textNode d of
        Inl e \<Rightarrow> Inl e
      | Inr replacementNodes \<Rightarrow>
          (case nextNode walker d of
             (successor, walker') \<Rightarrow>
               (case replaceCurrent replacementNodes textNode d of
                  Inl e \<Rightarrow> Inl e
                | Inr d' \<Rightarrow> Inr (walker', successor, d'))))"

text \<open>
  The \<open>while\<close> loop, lines 102-114. Its state is the walker, \<open>textNode\<close> and the tree.
  The loop ends when the walker returns \<open>null\<close> and may never end when the walker never
  does: the result \<open>None\<close> is a loop that does not return. \<open>Some (Inl e)\<close> is a rejected
  promise, \<open>Some (Inr d)\<close> the tree when the function returns.
\<close>

partial_function (option) applyNodeFilterLoop ::
    "'w INodeFilter \<Rightarrow> 'w TreeWalker \<Rightarrow> node option \<Rightarrow> Document \<Rightarrow> (Exception + Document) option" where
  "applyNodeFilterLoop nodeFilter walker textNode d =
     (case textNode of
        None \<Rightarrow> Some (Inr d)
      | Some currentNode \<Rightarrow>
          (case loopBody nodeFilter walker currentNode d of
             Inl e \<Rightarrow> Some (Inl e)
           | Inr (walker', successor, d') \<Rightarrow> applyNodeFilterLoop nodeFilter walker' successor d'))"

text \<open>
  The loop's state after \<open>k\<close> more turns, when it makes that many: \<open>None\<close> when the loop
  has ended or thrown before.
\<close>

fun afterTurns ::
    "nat \<Rightarrow> 'w INodeFilter \<Rightarrow> 'w TreeWalker \<times> node option \<times> Document \<Rightarrow>
      ('w TreeWalker \<times> node option \<times> Document) option" where
  "afterTurns 0 nodeFilter s = Some s"
| "afterTurns (Suc k) nodeFilter (walker, None, d) = None"
| "afterTurns (Suc k) nodeFilter (walker, Some currentNode, d) =
     (case loopBody nodeFilter walker currentNode d of
        Inl e \<Rightarrow> None
      | Inr s \<Rightarrow> afterTurns k nodeFilter s)"

text \<open>The state in which \<open>applyNodeFilter\<close> enters its loop, lines 99-101.\<close>

definition loopEntry :: "'w INodeFilter \<Rightarrow> Document \<Rightarrow> 'w TreeWalker \<times> node option \<times> Document" where
  "loopEntry nodeFilter mdDoc =
     (case nextNode (createFilterTreeWalker nodeFilter mdDoc) mdDoc of
        (textNode, walker) \<Rightarrow> (walker, textNode, mdDoc))"

definition applyNodeFilter :: "'w INodeFilter \<Rightarrow> Document \<Rightarrow> (Exception + Document) option" where
  "applyNodeFilter nodeFilter mdDoc =
     (case loopEntry nodeFilter mdDoc of
        (walker, textNode, d) \<Rightarrow> applyNodeFilterLoop nodeFilter walker textNode d)"

subsection \<open>applyNodeFilters\<close>

text \<open>The \<open>for\<close> loop of lines 81-83: one filter after the other, on the same tree.\<close>

fun applyEach :: "'w INodeFilter list \<Rightarrow> Document \<Rightarrow> (Exception + Document) option" where
  "applyEach [] mdDoc = Some (Inr mdDoc)"
| "applyEach (nodeFilter # rest) mdDoc =
     (case applyNodeFilter nodeFilter mdDoc of
        None \<Rightarrow> None
      | Some (Inl e) \<Rightarrow> Some (Inl e)
      | Some (Inr mdDoc') \<Rightarrow> applyEach rest mdDoc')"

text \<open>
  \<open>DOMParser.parseFromString\<close> and the serialisation behind \<open>innerHTML\<close> belong to the
  platform and are parameters of the model.
\<close>

record Platform =
  parseFromString :: "string \<Rightarrow> Document"
  innerHTML :: "Document \<Rightarrow> string"

definition applyNodeFilters ::
    "Platform \<Rightarrow> 'w INodeFilter list \<Rightarrow> string \<Rightarrow> (Exception + string) option" where
  "applyNodeFilters platform nodeFilters parsedMarkdown =
     (case applyEach nodeFilters (parseFromString platform parsedMarkdown) of
        None \<Rightarrow> None
      | Some (Inl e) \<Rightarrow> Some (Inl e)
      | Some (Inr mdDoc) \<Rightarrow> Some (Inr (innerHTML platform mdDoc)))"

subsection \<open>What a replacement leaves in the tree\<close>

text \<open>
  In a DOM tree the two properties agree: the children of a node are the nodes whose
  parent it is, each listed once.
\<close>

definition treeConsistent :: "Document \<Rightarrow> bool" where
  "treeConsistent d \<longleftrightarrow>
     (\<forall>p x. x \<in> set (childNodes d p) \<longleftrightarrow> parentNode d x = Some p)
     \<and> (\<forall>p. distinct (childNodes d p))"

text \<open>
  Of a list of children, the nodes that inserting the replacement nodes \<open>rs\<close> before
  \<open>c\<close> leaves where they are: \<open>insertBefore\<close> takes a node that is in the tree out of
  the place it has.
\<close>

definition keepUnmoved :: "node \<Rightarrow> node list \<Rightarrow> node list \<Rightarrow> node list" where
  "keepUnmoved c rs xs = [x \<leftarrow> xs. x = c \<or> x \<notin> set rs]"

text \<open>
  The replacement nodes as they stand before \<open>c\<close> once all are inserted: a node named
  more than once stands where it was put last, and \<open>c\<close> itself is never put before
  itself.
\<close>

definition insertedBlock :: "node \<Rightarrow> node list \<Rightarrow> node list" where
  "insertedBlock c rs = [x \<leftarrow> remdups rs. x \<noteq> c]"

subsection \<open>A concrete tree, walker and filters\<close>

text \<open>
  A walker over the children of one node, in document order: the first call returns the
  first child, a later call the next sibling, in the tree of that moment, of the node
  returned last. Its position is the node returned last.
\<close>

definition childWalker :: "node \<Rightarrow> (node option) TreeWalker" where
  "childWalker root =
     \<lparr> position = None,
       advance = (\<lambda>pos d.
         let found = (case pos of
                        None \<Rightarrow> (case childNodes d root of [] \<Rightarrow> None | c # cs \<Rightarrow> Some c)
                      | Some c \<Rightarrow> nextSibling d c)
         in (found, if found = None then pos else found)) \<rparr>"

text \<open>A body, node 0, with the three text nodes 1, 2 and 3.\<close>

definition sampleDoc :: Document where
  "sampleDoc =
     \<lparr> parentNode = (\<lambda>n. if n = 1 \<or> n = 2 \<or> n = 3 then Some 0 else None),
       childNodes = (\<lambda>n. if n = 0 then [1, 2, 3] else []) \<rparr>"

text \<open>A filter that replaces node 2 by the new nodes 10 and 11 and matches nothing else.\<close>

definition splitTwo :: "(node option) INodeFilter" where
  "splitTwo =
     \<lparr> createFilterTreeWalker = (\<lambda>d. childWalker 0),
       filterNode = (\<lambda>n d. if n = 2 then Inr (Some [10, 11]) else Inr None) \<rparr>"

text \<open>A filter whose lookup fails on node 2.\<close>

definition failsOnTwo :: "(node option) INodeFilter" where
  "failsOnTwo =
     \<lparr> createFilterTreeWalker = (\<lambda>d. childWalker 0),
       filterNode = (\<lambda>n d. if n = 2 then Inl (Thrown ''lookup failed'') else Inr None) \<rparr>"

text \<open>A filter that matches nothing.\<close>

definition matchesNothing :: "(node option) INodeFilter" where
  "matchesNothing =
     \<lparr> createFilterTreeWalker = (\<lambda>d. childWalker 0),
       filterNode = (\<lambda>n d. Inr None) \<rparr>"

text \<open>
  A platform for the sample: every markup parses to the sample tree, and the markup of a
  tree is the text of the children of node 0, one after the other.
\<close>

definition sampleText :: "node \<Rightarrow> string" where
  "sampleText n =
     (if n = 1 then ''see ''
      else if n = 2 then ''@two''
      else if n = 3 then '' now''
      else if n = 10 then ''<a>@two</a>''
      else [])"

definition samplePlatform :: Platform where
  "samplePlatform =
     \<lparr> parseFromString = (\<lambda>s. sampleDoc),
       innerHTML = (\<lambda>d. concat (map sampleText (childNodes d 0))) \<rparr>"

text \<open>The state of the loop when it reaches node 2 of the sample, and the tree once
  node 2 has been replaced by the nodes 10 and 11.\<close>

definition atTwo :: "(node option) TreeWalker" where
  "atTwo = (childWalker 0)\<lparr> position := Some 2 \<rparr>"

definition sampleDocSplit :: Document where
  "sampleDocSplit =
     \<lparr> parentNode = (\<lambda>n. if n = 1 \<or> n = 10 \<or> n = 11 \<or> n = 3 then Some 0 else None),
       childNodes = (\<lambda>n. if n = 0 then [1, 10, 11, 3] else []) \<rparr>"

text \<open>The walker at the other nodes of the sample.\<close>

definition atOne :: "(node option) TreeWalker" where
  "atOne = (childWalker 0)\<lparr> position := Some 1 \<rparr>"

definition atThree :: "(node option) TreeWalker" where
  "atThree = (childWalker 0)\<lparr> position := Some 3 \<rparr>"

text \<open>
  A walker that returns one given node and then \<open>null\<close>, and a filter whose walker
  returns node 7, which has no parent in the sample, and which answers with the new
  node 10.
\<close>

definition onceWalker :: "node \<Rightarrow> (node option) TreeWalker" where
  "onceWalker n =
     \<lparr> position = None,
       advance = (\<lambda>pos d. case pos of None \<Rightarrow> (Some n, Some n) | Some x \<Rightarrow> (None, Some x)) \<rparr>"


definition atSeven :: "(node option) TreeWalker" where
  "atSeven = (onceWalker 7)\<lparr> position := Some 7 \<rparr>"


text \<open>A filter that replaces node 2 as \<open>splitTwo\<close> does and whose lookup fails on node 3.\<close>

definition splitTwoFailsOnThree :: "(node option) INodeFilter" where
  "splitTwoFailsOnThree =
     \<lparr> createFilterTreeWalker = (\<lambda>d. childWalker 0),
       filterNode = (\<lambda>n d. if n = 2 then Inr (Some [10, 11])
                            else if n = 3 then Inl (Thrown ''lookup failed'')
                            else Inr None) \<rparr>"

section \<open>Invariant of the builder's memory\<close>

text \<open>
  What holds of the remembered pipeline in every state the builder reaches: its classes
  are those the remembered arguments give, in the order of the array literal, and its
  references are below the next unused one.
\<close>

definition builderInv :: "BuilderState \<Rightarrow> bool" where
  "builderInv st =
     (case memo st of
        None \<Rightarrow> True
      | Some (args, p) \<Rightarrow>
          map kind (elements p) = pipeKinds (fst args) (snd args)
          \<and> (\<forall>x \<in> pipelineRefs p. x < nextRef st))"

chapter \<open>Properties\<close>

section \<open>Dispatcher error handlers\<close>

text \<open>
  Claim C10. For every error and every dispatcher, \<open>defaultErrorHandler\<close> makes one call
  to the dispatcher, \<open>presentError\<close> with the error it received, and its promise then
  resolves with \<open>null\<close>; when \<open>presentError\<close> rejects, the awaiting handler rejects with
  the same value. In no case does it resolve with an error for a later handler.
\<close>

theorem defaultErrorHandler_presents_and_handles:
  "fst (defaultErrorHandler error dispatcher) = [PresentError error]
   \<and> snd (defaultErrorHandler error dispatcher) =
       (case dispatcher (PresentError error) of None \<Rightarrow> Inr None | Some thrown \<Rightarrow> Inl thrown)
   \<and> snd (defaultErrorHandler error dispatcher) \<noteq> Inr (Some returned)"
  by (simp add: defaultErrorHandler_def split: option.split)

lemma defaultErrorHandler_resolving:
  "defaultErrorHandler error resolving = ([PresentError error], Inr None)"
  by (simp add: defaultErrorHandler_def resolving_def)

text \<open>
  Claim C4, as the code has it. The handler resolves with \<open>null\<close> in two cases, both
  under a selection of type \<open>Repository\<close> or \<open>MissingRepository\<close>: the selected
  repository is already marked missing, whatever the error is, and then the dispatcher is
  not called; or the error is a \<open>GitError\<close> classified \<open>NotAGitRepository\<close>, and then
  the handler calls \<open>updateRepositoryMissing(repository, true)\<close> first and resolves with
  \<open>null\<close> once that call has resolved. In every other case it resolves with the error it
  received and calls nothing. The selected repository is compared with nothing.
\<close>

theorem missingRepositoryHandler_cases:
  "(selectionHasRepository appState \<and> selectedRepositoryMissing appState
      \<longrightarrow> missingRepositoryHandler appState error dispatcher = ([], Inr None))
   \<and> (selectedState appState = Some sel \<and> selectionHasRepository appState
        \<and> \<not> missing (repository sel) \<and> isNotAGitRepository error
      \<longrightarrow> missingRepositoryHandler appState error dispatcher =
            ([UpdateRepositoryMissing (repository sel) True],
             case dispatcher (UpdateRepositoryMissing (repository sel) True) of
               None \<Rightarrow> Inr None
             | Some thrown \<Rightarrow> Inl thrown))
   \<and> (\<not> (selectionHasRepository appState
          \<and> (selectedRepositoryMissing appState \<or> isNotAGitRepository error))
      \<longrightarrow> missingRepositoryHandler appState error dispatcher = ([], Inr (Some error)))"
  by (auto simp add: missingRepositoryHandler_def selectionHasRepository_def
      selectedRepositoryMissing_def split: option.split)

theorem missingRepositoryHandler_cases_witness:
  "selectionHasRepository (stateSelecting MissingRepository repoAMissing)
   \<and> selectedRepositoryMissing (stateSelecting MissingRepository repoAMissing)
   \<and> missingRepositoryHandler (stateSelecting MissingRepository repoAMissing)
        (OtherError ''disk full'') resolving = ([], Inr None)
   \<and> selectionHasRepository (stateSelecting Repository repoA)
   \<and> isNotAGitRepository (GitError (Some NotAGitRepository) ''fatal: not a git repository'')
   \<and> missingRepositoryHandler (stateSelecting Repository repoA)
        (GitError (Some NotAGitRepository) ''fatal: not a git repository'') resolving
       = ([UpdateRepositoryMissing repoA True], Inr None)
   \<and> missingRepositoryHandler (stateSelecting Repository repoA) (OtherError ''disk full'') resolving
       = ([], Inr (Some (OtherError ''disk full'')))
   \<and> missingRepositoryHandler (stateSelecting (OtherSelectionType 0) repoA)
        (GitError (Some NotAGitRepository) ''fatal: not a git repository'') resolving
       = ([], Inr (Some (GitError (Some NotAGitRepository) ''fatal: not a git repository'')))"
proof -
  let ?notRepo = "GitError (Some NotAGitRepository) ''fatal: not a git repository''"
  have a: "missingRepositoryHandler (stateSelecting MissingRepository repoAMissing)
        (OtherError ''disk full'') resolving = ([], Inr None)"
    using missingRepositoryHandler_cases [where appState = "stateSelecting MissingRepository repoAMissing"
        and error = "OtherError ''disk full''" and dispatcher = resolving]
    by (simp add: selectionHasRepository_def selectedRepositoryMissing_def stateSelecting_def
        repoAMissing_def)
  have b: "missingRepositoryHandler (stateSelecting Repository repoA) ?notRepo resolving
       = ([UpdateRepositoryMissing repoA True], Inr None)"
    using missingRepositoryHandler_cases [where appState = "stateSelecting Repository repoA"
        and error = ?notRepo and dispatcher = resolving
        and sel = "\<lparr> selectionType = Repository, repository = repoA \<rparr>"]
    by (simp add: selectionHasRepository_def stateSelecting_def repoA_def resolving_def)
  have c: "missingRepositoryHandler (stateSelecting Repository repoA) (OtherError ''disk full'') resolving
       = ([], Inr (Some (OtherError ''disk full'')))"
    using missingRepositoryHandler_cases [where appState = "stateSelecting Repository repoA"
        and error = "OtherError ''disk full''" and dispatcher = resolving]
    by (simp add: selectionHasRepository_def selectedRepositoryMissing_def stateSelecting_def
        repoA_def)
  have d: "missingRepositoryHandler (stateSelecting (OtherSelectionType 0) repoA) ?notRepo resolving
       = ([], Inr (Some ?notRepo))"
    using missingRepositoryHandler_cases [where appState = "stateSelecting (OtherSelectionType 0) repoA"
        and error = ?notRepo and dispatcher = resolving]
    by (simp add: selectionHasRepository_def stateSelecting_def)
  show ?thesis
    using a b c d
    by (simp add: selectionHasRepository_def selectedRepositoryMissing_def stateSelecting_def
        repoAMissing_def)
qed

text \<open>
  Claim C4 as it is stated fails: with a selected repository that is already marked
  missing, the handler resolves with \<open>null\<close> for an error that is no \<open>GitError\<close> at all,
  and the error it received is not returned.
\<close>

theorem missingRepositoryHandler_null_counterexample:
  "\<not> isNotAGitRepository (OtherError ''disk full'')
   \<and> missingRepositoryHandler (stateSelecting Repository repoAMissing)
        (OtherError ''disk full'') resolving = ([], Inr None)
   \<and> missingRepositoryHandler (stateSelecting Repository repoAMissing)
        (OtherError ''disk full'') resolving \<noteq> ([], Inr (Some (OtherError ''disk full'')))"
  by (simp add: missingRepositoryHandler_def stateSelecting_def repoAMissing_def)

section \<open>The pipeline builder\<close>

lemma kind_allocate: "map kind (allocate n ks) = ks"
  by (induction ks arbitrary: n) simp_all

lemma refs_allocate: "set (map instanceRef (allocate n ks)) = {n ..< n + length ks}"
  by (induction ks arbitrary: n) auto

lemma newPipeline_kinds:
  "map kind (elements (fst (newPipeline emoji repo n))) = pipeKinds emoji repo"
  by (simp add: newPipeline_def Let_def kind_allocate)

lemma newPipeline_refs:
  "pipelineRefs (fst (newPipeline emoji repo n)) = {n ..< snd (newPipeline emoji repo n)}"
  by (auto simp add: newPipeline_def Let_def pipelineRefs_def refs_allocate simp del: set_map)

lemma rebuild_memo:
  "rebuild emoji repo st =
     (fst (newPipeline emoji repo (nextRef st)),
      \<lparr> memo = Some ((emoji, repo), fst (newPipeline emoji repo (nextRef st))),
        nextRef = snd (newPipeline emoji repo (nextRef st)) \<rparr>)"
  by (simp add: rebuild_def split: prod.split)

lemma builderInv_rebuild: "builderInv (snd (rebuild emoji repo st))"
  by (simp add: rebuild_memo builderInv_def newPipeline_kinds newPipeline_refs)

lemma builderInv_build:
  "builderInv st \<Longrightarrow> builderInv (snd (buildCustomMarkDownNodeFilterPipe emoji repo st))"
  by (simp add: buildCustomMarkDownNodeFilterPipe_def builderInv_rebuild
      split: option.split prod.split)

lemma builderInv_afterCalls: "builderInv st \<Longrightarrow> builderInv (afterCalls history st)"
  by (induction history arbitrary: st) (simp_all add: builderInv_build)

lemma builderInv_initial: "builderInv initialBuilder"
  by (simp add: builderInv_def initialBuilder_def)

lemma build_memo_after:
  "buildCustomMarkDownNodeFilterPipe emoji repo st = (p, st') \<Longrightarrow>
   memo st' = Some ((emoji, repo), p)"
  by (auto simp add: buildCustomMarkDownNodeFilterPipe_def rebuild_memo
      split: option.splits prod.splits if_splits)

lemma build_kinds:
  "builderInv st \<Longrightarrow>
   map kind (elements (fst (buildCustomMarkDownNodeFilterPipe emoji repo st)))
     = pipeKinds emoji repo"
  by (auto simp add: buildCustomMarkDownNodeFilterPipe_def rebuild_memo newPipeline_kinds
      builderInv_def split: option.splits prod.splits)

lemma positions_team: "positions isTeamMention (pipeKinds emoji repo) = [3]"
  by (simp add: positions_def pipeKinds_def eval_nat_numeral)

lemma positions_mention: "positions isMention (pipeKinds emoji repo) = [4]"
  by (simp add: positions_def pipeKinds_def eval_nat_numeral)

lemma sample_history:
  "afterCalls [(3, 4)] initialBuilder
     = \<lparr> memo = Some ((3, 4), fst (newPipeline 3 4 0)), nextRef = 10 \<rparr>"
  by (simp add: buildCustomMarkDownNodeFilterPipe_def rebuild_def newPipeline_def
      initialBuilder_def pipeKinds_def Let_def)

text \<open>
  Claim C5. After any history of calls, let a call with the pair \<open>(emoji, repo)\<close> return
  the pipeline \<open>p1\<close>. The next call with the same pair returns \<open>p1\<close> itself, the same
  array and the same instances in the same order, and builds nothing. The next call with
  another pair builds a new pipeline: its references are the ones this call allocates,
  none of them is a reference of \<open>p1\<close>, and it is what the builder remembers from then on.
\<close>

theorem build_memoizes_last_pair:
  assumes "buildCustomMarkDownNodeFilterPipe emoji repo (afterCalls history initialBuilder)
             = (p1, st1)"
  shows "buildCustomMarkDownNodeFilterPipe emoji repo st1 = (p1, st1)
     \<and> ((emoji', repo') \<noteq> (emoji, repo) \<longrightarrow>
          (\<exists>p2 st2. buildCustomMarkDownNodeFilterPipe emoji' repo' st1 = (p2, st2)
             \<and> p2 = fst (newPipeline emoji' repo' (nextRef st1))
             \<and> map kind (elements p2) = pipeKinds emoji' repo'
             \<and> pipelineRefs p2 = {nextRef st1 ..< nextRef st2}
             \<and> pipelineRefs p2 \<inter> pipelineRefs p1 = {}
             \<and> memo st2 = Some ((emoji', repo'), p2)))"
proof -
  let ?st = "afterCalls history initialBuilder"
  have inv: "builderInv ?st"
    by (rule builderInv_afterCalls [OF builderInv_initial])
  have st1: "st1 = snd (buildCustomMarkDownNodeFilterPipe emoji repo ?st)"
    using assms by simp
  have inv1: "builderInv st1"
    unfolding st1 by (rule builderInv_build [OF inv])
  have m1: "memo st1 = Some ((emoji, repo), p1)"
    by (rule build_memo_after [OF assms])
  have hit: "buildCustomMarkDownNodeFilterPipe emoji repo st1 = (p1, st1)"
    by (simp add: buildCustomMarkDownNodeFilterPipe_def m1)
  have old: "\<forall>x \<in> pipelineRefs p1. x < nextRef st1"
    using inv1 m1 by (simp add: builderInv_def)
  have miss: "(emoji', repo') \<noteq> (emoji, repo) \<Longrightarrow>
      buildCustomMarkDownNodeFilterPipe emoji' repo' st1 = rebuild emoji' repo' st1"
    by (auto simp add: buildCustomMarkDownNodeFilterPipe_def m1)
  have disj: "pipelineRefs (fst (newPipeline emoji' repo' (nextRef st1))) \<inter> pipelineRefs p1 = {}"
    using old by (auto simp add: newPipeline_refs)
  show ?thesis
    using hit miss disj by (auto simp add: rebuild_memo newPipeline_kinds newPipeline_refs)
qed

theorem build_memoizes_last_pair_witness:
  "buildCustomMarkDownNodeFilterPipe 7 8 (afterCalls [(3, 4)] initialBuilder)
     = (fst (newPipeline 7 8 10), snd (rebuild 7 8 (afterCalls [(3, 4)] initialBuilder)))
   \<and> buildCustomMarkDownNodeFilterPipe 7 8 (snd (rebuild 7 8 (afterCalls [(3, 4)] initialBuilder)))
       = (fst (newPipeline 7 8 10), snd (rebuild 7 8 (afterCalls [(3, 4)] initialBuilder)))
   \<and> (7, 9) \<noteq> (7 :: nat, 8 :: nat)
   \<and> (\<exists>p2 st2.
         buildCustomMarkDownNodeFilterPipe 7 9 (snd (rebuild 7 8 (afterCalls [(3, 4)] initialBuilder)))
           = (p2, st2)
         \<and> arrayRef p2 = 29
         \<and> pipelineRefs p2 \<inter> pipelineRefs (fst (newPipeline 7 8 10)) = {}
         \<and> memo st2 = Some ((7, 9), p2))"
proof -
  have first: "buildCustomMarkDownNodeFilterPipe 7 8 (afterCalls [(3, 4)] initialBuilder)
     = (fst (newPipeline 7 8 10), snd (rebuild 7 8 (afterCalls [(3, 4)] initialBuilder)))"
    by (simp add: sample_history buildCustomMarkDownNodeFilterPipe_def rebuild_memo
        del: afterCalls.simps)
  have changed: "(7, 9) \<noteq> (7 :: nat, 8 :: nat)" by simp
  have next_ref: "nextRef (snd (rebuild 7 8 (afterCalls [(3, 4)] initialBuilder))) = 20"
    by (simp add: sample_history rebuild_memo newPipeline_def pipeKinds_def Let_def
        del: afterCalls.simps)
  have "arrayRef (fst (newPipeline 7 9 20)) = 29"
    by (simp add: newPipeline_def pipeKinds_def Let_def)
  then show ?thesis
    using build_memoizes_last_pair [OF first, of 7 9] first changed next_ref by auto
qed

text \<open>
  Claim C6. In the pipeline that any call of the builder returns, after any history of
  calls, the classes are those of the array literal in its order: the only
  \<open>TeamMentionFilter\<close> is at index 3 and the only \<open>MentionFilter\<close> at index 4, so
  the team-mention filter comes strictly before the user-mention filter.
\<close>

theorem team_mention_before_mention:
  "map kind (elements (fst (buildCustomMarkDownNodeFilterPipe emoji repo
       (afterCalls history initialBuilder)))) = pipeKinds emoji repo
   \<and> positions isTeamMention (map kind (elements (fst (buildCustomMarkDownNodeFilterPipe emoji repo
       (afterCalls history initialBuilder))))) = [3]
   \<and> positions isMention (map kind (elements (fst (buildCustomMarkDownNodeFilterPipe emoji repo
       (afterCalls history initialBuilder))))) = [4]"
  by (simp add: build_kinds builderInv_afterCalls builderInv_initial positions_team
      positions_mention)

theorem team_mention_before_mention_witness:
  "positions isTeamMention (map kind (elements (fst (buildCustomMarkDownNodeFilterPipe 3 4
       (afterCalls [(3, 4)] initialBuilder))))) = [3]
   \<and> positions isMention (map kind (elements (fst (buildCustomMarkDownNodeFilterPipe 3 4
       (afterCalls [(3, 4)] initialBuilder))))) = [4]
   \<and> arrayRef (fst (buildCustomMarkDownNodeFilterPipe 3 4 (afterCalls [(3, 4)] initialBuilder))) = 9"
proof -
  have "arrayRef (fst (buildCustomMarkDownNodeFilterPipe 3 4 (afterCalls [(3, 4)] initialBuilder))) = 9"
    by (simp add: sample_history buildCustomMarkDownNodeFilterPipe_def newPipeline_def
        pipeKinds_def Let_def del: afterCalls.simps)
  then show ?thesis
    using team_mention_before_mention [of 3 4 "[(3, 4)]"] by blast
qed

section \<open>Date formatting\<close>

text \<open>
  Claim C9. For a \<open>Date\<close> whose time value is \<open>NaN\<close> and any options, \<open>formatDate\<close>
  returns the text \<open>Invalid date\<close> and leaves the module as it was: no call into
  \<open>Intl\<close> is recorded, neither a construction nor a \<open>format\<close>, and the formatter cache
  is not read.
\<close>

theorem formatDate_invalid:
  "formatDate intl InvalidDate options st = (Inr ''Invalid date'', st)"
  by (simp add: formatDate_def)

subsection \<open>The parser\<close>

lemmas bcp47_defs = bcp47Parse_def bcp47Region_def grandfathered_def toLowerCase_def
  langtagRegion_def languageEnd_def isAlphabetical_def isDecimal_def charCodeAt_def
  extlangAt_def scriptAt_def regionAt_def slice_def Let_def

lemma bcp47Parse_fr_CA: "bcp47Parse ''fr-CA'' = Inr \<lparr> region = Defined ''CA'' \<rparr>"
  by (simp add: bcp47_defs)

lemma bcp47Parse_not_a_locale: "bcp47Parse (replaceUnderscores ''not a locale'') = Inr \<lparr> region = Null \<rparr>"
  by (simp add: bcp47_defs replaceUnderscores_def)

lemma bcp47Parse_zh_Hans_CN: "bcp47Parse (replaceUnderscores ''zh_Hans_CN'') = Inr \<lparr> region = Defined ''CN'' \<rparr>"
  by (simp add: bcp47_defs replaceUnderscores_def)

lemma regionAt_defined: "regionAt source v i \<noteq> Undefined"
  by (simp add: regionAt_def)

lemma langtagRegion_defined: "langtagRegion source \<noteq> Undefined"
  by (simp add: langtagRegion_def Let_def regionAt_defined split: option.split)

lemma bcp47Region_defined: "bcp47Region tag \<noteq> Undefined"
  by (simp add: bcp47Region_def langtagRegion_defined split: option.split)

subsection \<open>setDateLocale\<close>

text \<open>
  Claim C7, as the code has it. When the parser finds no region in the locale string
  (the field is \<open>null\<close>, as bcp-47 leaves it, or \<open>undefined\<close>), \<open>setDateLocale\<close>
  returns without throwing and does not keep the locale that was configured before:
  \<open>dateLocale\<close> becomes \<open>en-US\<close> for \<open>null\<close> and \<open>undefined\<close> for \<open>undefined\<close>, and
  is what the call returns. From then on \<open>formatDate\<close> asks for a formatter of the
  locale \<open>en-US\<close> and of no other. The formatter cache and \<open>Intl\<close> are not touched.
\<close>

theorem setDateLocale_no_region:
  assumes "parse (replaceUnderscores l) = Inr schema"
    and "region schema = Null \<or> region schema = Undefined"
  shows "fst (setDateLocale parse (Some l) st) = dateLocale (snd (setDateLocale parse (Some l) st))
     \<and> dateLocale (snd (setDateLocale parse (Some l) st))
         = (if region schema = Null then Some ''en-US'' else None)
     \<and> set (localeNames (localeInEffect (snd (setDateLocale parse (Some l) st)))) = {''en-US''}
     \<and> formatterCache (snd (setDateLocale parse (Some l) st)) = formatterCache st
     \<and> intlCalls (snd (setDateLocale parse (Some l) st)) = intlCalls st
     \<and> fst (formatDate intl (TimeValue t) options (snd (setDateLocale parse (Some l) st))) =
         map_sum id (\<lambda>f. render intl f t)
           (fst (getDateFormatter intl
                  (localeInEffect (snd (setDateLocale parse (Some l) st))) options
                  (snd (setDateLocale parse (Some l) st))))"
  using assms
  by (auto simp add: setDateLocale_def localeInEffect_def localeNames_def defaultLocale_def
      formatDate_def split: prod.split sum.split)

theorem setDateLocale_no_region_witness:
  "bcp47Parse (replaceUnderscores ''not a locale'') = Inr \<lparr> region = Null \<rparr>
   \<and> (region \<lparr> region = Null \<rparr> = Null)
   \<and> dateLocale (snd (setDateLocale bcp47Parse (Some ''not a locale'')
         (initialDateModule\<lparr> dateLocale := Some ''en-CA'' \<rparr>))) = Some ''en-US''
   \<and> fst (setDateLocale bcp47Parse (Some ''not a locale'')
         (initialDateModule\<lparr> dateLocale := Some ''en-CA'' \<rparr>)) = Some ''en-US''
   \<and> localeInEffect (snd (setDateLocale bcp47Parse (Some ''not a locale'')
         (initialDateModule\<lparr> dateLocale := Some ''en-CA'' \<rparr>))) = LocaleList [''en-US'', ''en-US'']"
proof -
  let ?st = "initialDateModule\<lparr> dateLocale := Some ''en-CA'' \<rparr>"
  have p: "bcp47Parse (replaceUnderscores ''not a locale'') = Inr \<lparr> region = Null \<rparr>"
    by (rule bcp47Parse_not_a_locale)
  have r: "region \<lparr> region = Null \<rparr> = Null \<or> region \<lparr> region = Null \<rparr> = Undefined"
    by simp
  have a: "fst (setDateLocale bcp47Parse (Some ''not a locale'') ?st)
             = dateLocale (snd (setDateLocale bcp47Parse (Some ''not a locale'') ?st))"
    and b: "dateLocale (snd (setDateLocale bcp47Parse (Some ''not a locale'') ?st)) = Some ''en-US''"
    using setDateLocale_no_region [where parse = bcp47Parse and l = "''not a locale''"
        and schema = "\<lparr> region = Null \<rparr>" and st = ?st and intl = anyIntl and t = 0
        and options = "[]", OF p r]
    by simp_all
  have c: "localeInEffect (snd (setDateLocale bcp47Parse (Some ''not a locale'') ?st))
             = LocaleList [''en-US'', ''en-US'']"
    using b by (simp add: localeInEffect_def defaultLocale_def)
  show ?thesis using p a b c by simp
qed

text \<open>
  Claim C7 as it is stated fails: with \<open>en-CA\<close> configured, the call with a string in
  which bcp-47 finds no region passes nothing to \<open>log.error\<close> and does not leave the
  configured locale as it was; it is \<open>en-US\<close> after the call.
\<close>

theorem setDateLocale_unparseable_counterexample:
  "bcp47Parse (replaceUnderscores ''not a locale'') = Inr \<lparr> region = Null \<rparr>
   \<and> dateLocale (initialDateModule\<lparr> dateLocale := Some ''en-CA'' \<rparr>) = Some ''en-CA''
   \<and> setDateLocale bcp47Parse (Some ''not a locale'')
        (initialDateModule\<lparr> dateLocale := Some ''en-CA'' \<rparr>)
       = (Some ''en-US'', initialDateModule\<lparr> dateLocale := Some ''en-US'' \<rparr>)
   \<and> errorLog (snd (setDateLocale bcp47Parse (Some ''not a locale'')
        (initialDateModule\<lparr> dateLocale := Some ''en-CA'' \<rparr>))) = []
   \<and> dateLocale (snd (setDateLocale bcp47Parse (Some ''not a locale'')
        (initialDateModule\<lparr> dateLocale := Some ''en-CA'' \<rparr>))) \<noteq> Some ''en-CA''"
proof -
  have p: "bcp47Parse (replaceUnderscores ''not a locale'') = Inr \<lparr> region = Null \<rparr>"
    by (rule bcp47Parse_not_a_locale)
  then show ?thesis
    by (simp add: setDateLocale_def initialDateModule_def)
qed

text \<open>
  With the parser of bcp-47 the branch of lines 45-47 is never taken and the parser never
  throws: no call of \<open>setDateLocale\<close> passes anything to \<open>log.error\<close>.
\<close>

lemma setDateLocale_bcp47_logs_nothing:
  "errorLog (snd (setDateLocale bcp47Parse given st)) = errorLog st"
proof (cases given)
  case None
  then show ?thesis by (simp add: setDateLocale_def)
next
  case (Some l)
  show ?thesis
  proof (cases "bcp47Region (replaceUnderscores l)")
    case Undefined
    then show ?thesis using bcp47Region_defined by blast
  next
    case Null
    with Some show ?thesis by (simp add: setDateLocale_def bcp47Parse_def)
  next
    case (Defined r)
    with Some show ?thesis by (simp add: setDateLocale_def bcp47Parse_def)
  qed
qed

text \<open>The branch of lines 45-47, for a parser that leaves the region \<open>undefined\<close>.\<close>

lemma setDateLocale_undefined_region:
  "parse (replaceUnderscores l) = Inr schema \<Longrightarrow> region schema = Undefined \<Longrightarrow>
   setDateLocale parse (Some l) st =
     (None, st\<lparr> dateLocale := None,
                errorLog := errorLog st @ [''Failed parsing locale from '' @ l] \<rparr>)"
  by (simp add: setDateLocale_def)

lemma setDateLocale_parser_throws:
  "parse (replaceUnderscores l) = Inl e \<Longrightarrow>
   setDateLocale parse (Some l) st =
     (dateLocale st, st\<lparr> errorLog := errorLog st @ [''Failed setting date locale''] \<rparr>)"
  by (simp add: setDateLocale_def)

lemma setDateLocale_null_region:
  "parse (replaceUnderscores l) = Inr schema \<Longrightarrow> region schema = Null \<Longrightarrow>
   setDateLocale parse (Some l) st = (Some ''en-US'', st\<lparr> dateLocale := Some ''en-US'' \<rparr>)"
  by (simp add: setDateLocale_def)

text \<open>
  Claim C8. With a parser that reports the region \<open>CA\<close> for the tag \<open>fr-CA\<close>, the call
  \<open>setDateLocale("fr_CA")\<close> returns \<open>en-CA\<close> without throwing and without a message to
  \<open>log.error\<close>, and configures \<open>en-CA\<close>. From then on \<open>formatDate\<close> asks for a formatter
  of the locale list \<open>[en-CA, en-US]\<close> and formats a valid date with it.
\<close>

theorem setDateLocale_fr_CA:
  assumes "parse ''fr-CA'' = Inr schema" and "region schema = Defined ''CA''"
  shows "setDateLocale parse (Some ''fr_CA'') st
           = (Some ''en-CA'', st\<lparr> dateLocale := Some ''en-CA'' \<rparr>)
         \<and> errorLog (snd (setDateLocale parse (Some ''fr_CA'') st)) = errorLog st
         \<and> localeInEffect (snd (setDateLocale parse (Some ''fr_CA'') st))
             = LocaleList [''en-CA'', ''en-US'']
         \<and> fst (formatDate intl (TimeValue t) options (snd (setDateLocale parse (Some ''fr_CA'') st))) =
             map_sum id (\<lambda>f. render intl f t)
               (fst (getDateFormatter intl (LocaleList [''en-CA'', ''en-US'']) options
                      (snd (setDateLocale parse (Some ''fr_CA'') st))))"
  using assms
  by (simp add: setDateLocale_def localeInEffect_def defaultLocale_def formatDate_def
      replaceUnderscores_def split: prod.split sum.split)

theorem setDateLocale_fr_CA_witness:
  "bcp47Parse ''fr-CA'' = Inr \<lparr> region = Defined ''CA'' \<rparr>
   \<and> region \<lparr> region = Defined ''CA'' \<rparr> = Defined ''CA''
   \<and> setDateLocale bcp47Parse (Some ''fr_CA'') initialDateModule
       = (Some ''en-CA'', initialDateModule\<lparr> dateLocale := Some ''en-CA'' \<rparr>)
   \<and> errorLog (snd (setDateLocale bcp47Parse (Some ''fr_CA'') initialDateModule)) = []
   \<and> formatDate anyIntl (TimeValue 0) []
        (snd (setDateLocale bcp47Parse (Some ''fr_CA'') initialDateModule))
       = (Inr ''formatted'',
          initialDateModule\<lparr> dateLocale := Some ''en-CA'',
            formatterCache := (newQuickLRU 100)\<lparr> cache :=
              [((LocaleList [''en-CA'', ''en-US''], []),
                Formatter (Some (LocaleList [''en-CA'', ''en-US''])) [])],
              lruSize := 1 \<rparr>,
            intlCalls := [Construct (Some (LocaleList [''en-CA'', ''en-US''])) [],
                          Format (Formatter (Some (LocaleList [''en-CA'', ''en-US''])) []) 0] \<rparr>)"
proof -
  have p: "bcp47Parse ''fr-CA'' = Inr \<lparr> region = Defined ''CA'' \<rparr>"
    by (rule bcp47Parse_fr_CA)
  have r: "region \<lparr> region = Defined ''CA'' \<rparr> = Defined ''CA''" by simp
  have set: "setDateLocale bcp47Parse (Some ''fr_CA'') initialDateModule
       = (Some ''en-CA'', initialDateModule\<lparr> dateLocale := Some ''en-CA'' \<rparr>)"
    using setDateLocale_fr_CA [where parse = bcp47Parse
        and schema = "\<lparr> region = Defined ''CA'' \<rparr>" and st = initialDateModule
        and intl = anyIntl and t = 0 and options = "[]", OF p r]
    by blast
  have fmt: "formatDate anyIntl (TimeValue 0) [] (initialDateModule\<lparr> dateLocale := Some ''en-CA'' \<rparr>)
       = (Inr ''formatted'',
          initialDateModule\<lparr> dateLocale := Some ''en-CA'',
            formatterCache := (newQuickLRU 100)\<lparr> cache :=
              [((LocaleList [''en-CA'', ''en-US''], []),
                Formatter (Some (LocaleList [''en-CA'', ''en-US''])) [])],
              lruSize := 1 \<rparr>,
            intlCalls := [Construct (Some (LocaleList [''en-CA'', ''en-US''])) [],
                          Format (Formatter (Some (LocaleList [''en-CA'', ''en-US''])) []) 0] \<rparr>)"
    by (simp add: formatDate_def localeInEffect_def defaultLocale_def getDateFormatter_def
        lruGet_def lruSet_def lruAdd_def newQuickLRU_def newDateFormatter_def anyIntl_def
        initialDateModule_def Let_def)
  show ?thesis using p r set fmt by (simp add: initialDateModule_def)
qed

section \<open>The pipeline executor\<close>

subsection \<open>The tree operations\<close>


lemma ancestor_of_root: "parentNode d n = None \<Longrightarrow> inclusiveAncestor d a n \<longleftrightarrow> a = n"
  by (auto elim: inclusiveAncestor.cases intro: inclusiveAncestor.self)


lemma consistentD:
  "treeConsistent d \<Longrightarrow> x \<in> set (childNodes d p) \<longleftrightarrow> parentNode d x = Some p"
  by (simp add: treeConsistent_def)

lemma consistent_distinct: "treeConsistent d \<Longrightarrow> distinct (childNodes d p)"
  by (simp add: treeConsistent_def)

lemma set_placeBefore: "set (placeBefore new ref xs) = insert new (set xs)"
  by (induction new ref xs rule: placeBefore.induct) auto

lemma distinct_placeBefore:
  "distinct xs \<Longrightarrow> new \<notin> set xs \<Longrightarrow> distinct (placeBefore new ref xs)"
  by (induction new ref xs rule: placeBefore.induct) (auto simp add: set_placeBefore)

lemma detach_fields:
  assumes "treeConsistent d"
  shows "childNodes (detach n d) = (\<lambda>q. [x \<leftarrow> childNodes d q. x \<noteq> n])"
    and "parentNode (detach n d) = (parentNode d)(n := None)"
proof -
  show "parentNode (detach n d) = (parentNode d)(n := None)"
    by (auto simp add: detach_def split: option.split)
  show "childNodes (detach n d) = (\<lambda>q. [x \<leftarrow> childNodes d q. x \<noteq> n])"
  proof (cases "parentNode d n")
    case None
    then have "\<And>q. n \<notin> set (childNodes d q)"
      using assms by (simp add: consistentD)
    then have "\<And>q. [x \<leftarrow> childNodes d q. x \<noteq> n] = childNodes d q"
      by (auto simp add: filter_id_conv)
    with None show ?thesis by (simp add: detach_def)
  next
    case (Some p)
    have other: "[x \<leftarrow> childNodes d q. x \<noteq> n] = childNodes d q" if "q \<noteq> p" for q
    proof -
      from that Some have "n \<notin> set (childNodes d q)"
        using assms by (simp add: consistentD)
      then show ?thesis by (auto simp add: filter_id_conv)
    qed
    have here: "remove1 n (childNodes d p) = [x \<leftarrow> childNodes d p. x \<noteq> n]"
      using consistent_distinct [OF assms, of p]
      by (simp add: distinct_remove1_removeAll removeAll_filter_not_eq) metis
    show ?thesis
      using Some other here by (auto simp add: detach_def fun_eq_iff)
  qed
qed

lemma detach_consistent:
  assumes "treeConsistent d"
  shows "treeConsistent (detach n d)"
  unfolding treeConsistent_def detach_fields [OF assms]
  using assms by (auto simp add: treeConsistent_def)

lemma insertBefore_consistent:
  assumes "treeConsistent d" and "insertBefore p r c d = Inr d'"
  shows "treeConsistent d'"
proof -
  let ?d1 = "detach r d"
  have c1: "treeConsistent ?d1" using assms(1) by (rule detach_consistent)
  have orphan: "parentNode ?d1 r = None"
    by (simp add: detach_fields [OF assms(1)])
  then have absent: "\<And>q. r \<notin> set (childNodes ?d1 q)"
    using c1 by (simp add: consistentD)
  obtain ref where d': "d' = ?d1\<lparr> parentNode := (parentNode ?d1)(r := Some p),
      childNodes := (childNodes ?d1)(p := placeBefore r ref (childNodes ?d1 p)) \<rparr>"
    using assms(2) by (auto simp add: insertBefore_def Let_def split: if_splits)
  show ?thesis
    unfolding d' treeConsistent_def
    using c1 absent
    by (auto simp add: set_placeBefore distinct_placeBefore consistentD consistent_distinct)
qed

lemma filter_absent: "c \<notin> set xs \<Longrightarrow> [x \<leftarrow> xs. x \<noteq> c] = xs"
  by (induction xs) auto



lemma ancestor_frame_back:
  assumes "inclusiveAncestor d a n"
    and "\<not> inclusiveAncestor d r n"
    and "\<And>x. x \<noteq> r \<Longrightarrow> parentNode d' x = parentNode d x"
  shows "inclusiveAncestor d' a n"
  using assms(1,2)
proof (induction rule: inclusiveAncestor.induct)
  case (self n)
  show ?case by (rule inclusiveAncestor.self)
next
  case (up n p a)
  from up.prems have "n \<noteq> r"
    using inclusiveAncestor.self by blast
  with up.hyps(1) assms(3) have par: "parentNode d' n = Some p" by simp
  have "\<not> inclusiveAncestor d r p"
    using up.prems up.hyps(1) inclusiveAncestor.up by blast
  then have "inclusiveAncestor d' a p" by (rule up.IH)
  with par show ?case by (rule inclusiveAncestor.up)
qed











lemma insertReplacements_consistent:
  "treeConsistent d \<Longrightarrow> insertReplacements rs c d = Inr d' \<Longrightarrow> treeConsistent d'"
proof (induction rs arbitrary: d)
  case Nil
  then show ?case by simp
next
  case (Cons r rs)
  then show ?case
    by (auto split: option.splits sum.splits dest: insertBefore_consistent)
qed

lemma removeCurrent_consistent:
  "treeConsistent d \<Longrightarrow> removeCurrent c d = Inr d' \<Longrightarrow> treeConsistent d'"
  by (auto simp add: removeCurrent_def removeChild_def detach_consistent
      split: option.splits if_splits)

lemma replaceCurrent_consistent:
  "treeConsistent d \<Longrightarrow> replaceCurrent answer c d = Inr d' \<Longrightarrow> treeConsistent d'"
  by (auto simp add: replaceCurrent_def split: option.splits sum.splits
      dest: insertReplacements_consistent removeCurrent_consistent)

lemma loopBody_consistent:
  "treeConsistent d \<Longrightarrow> loopBody nf w c d = Inr (w', s, d') \<Longrightarrow> treeConsistent d'"
  by (auto simp add: loopBody_def split: sum.splits prod.splits dest: replaceCurrent_consistent)





subsection \<open>The loop\<close>

lemma loop_turn:
  "loopBody nf w c d = Inr (w', t', d') \<Longrightarrow>
   applyNodeFilterLoop nf w (Some c) d = applyNodeFilterLoop nf w' t' d'"
  by (subst applyNodeFilterLoop.simps) simp

lemma loop_throw:
  "loopBody nf w c d = Inl e \<Longrightarrow> applyNodeFilterLoop nf w (Some c) d = Some (Inl e)"
  by (subst applyNodeFilterLoop.simps) simp

lemma loop_end: "applyNodeFilterLoop nf w None d = Some (Inr d)"
  by (subst applyNodeFilterLoop.simps) simp

lemma loop_afterTurns:
  "afterTurns k nf (w, t, d) = Some (w', t', d') \<Longrightarrow>
   applyNodeFilterLoop nf w t d = applyNodeFilterLoop nf w' t' d'"
proof (induction k arbitrary: w t d)
  case 0
  then show ?case by simp
next
  case (Suc k)
  then obtain c where t: "t = Some c" by (cases t) auto
  with Suc.prems obtain w1 t1 d1 where body: "loopBody nf w c d = Inr (w1, t1, d1)"
    and rest: "afterTurns k nf (w1, t1, d1) = Some (w', t', d')"
    by (auto split: sum.splits)
  have "applyNodeFilterLoop nf w t d = applyNodeFilterLoop nf w1 t1 d1"
    unfolding t using body by (rule loop_turn)
  also have "\<dots> = applyNodeFilterLoop nf w' t' d'"
    using rest by (rule Suc.IH)
  finally show ?case .
qed

lemma applyEach_append:
  "applyEach pre d0 = Some (Inr d) \<Longrightarrow> applyEach (pre @ rest) d0 = applyEach rest d"
  by (induction pre arbitrary: d0) (auto split: option.splits sum.splits)

subsection \<open>The turns of a pass\<close>

lemma afterTurns_extend:
  "afterTurns k nf s = Some (w, Some c, d) \<Longrightarrow> loopBody nf w c d = Inr s' \<Longrightarrow>
   afterTurns (Suc k) nf s = Some s'"
proof (induction k arbitrary: s)
  case 0
  then show ?case by simp
next
  case (Suc k)
  obtain w0 t0 d0 where s: "s = (w0, t0, d0)" by (cases s) auto
  with Suc.prems(1) obtain c0 where t0: "t0 = Some c0" by (cases t0) auto
  with Suc.prems(1) s obtain s1 where body: "loopBody nf w0 c0 d0 = Inr s1"
    and rest: "afterTurns k nf s1 = Some (w, Some c, d)"
    by (auto split: sum.splits)
  have "afterTurns (Suc k) nf s1 = Some s'"
    using rest Suc.prems(2) by (rule Suc.IH)
  then show ?case
    using s t0 body by simp
qed

lemma pass_returns:
  assumes "afterTurns j nf (loopEntry nf mdDoc) = Some (w, None, d)"
  shows "applyNodeFilter nf mdDoc = Some (Inr d)"
proof -
  obtain w0 t0 d0 where entry: "loopEntry nf mdDoc = (w0, t0, d0)"
    by (cases "loopEntry nf mdDoc") auto
  have "applyNodeFilter nf mdDoc = applyNodeFilterLoop nf w0 t0 d0"
    by (simp add: applyNodeFilter_def entry)
  also have "\<dots> = applyNodeFilterLoop nf w None d"
    using assms unfolding entry by (rule loop_afterTurns)
  finally show ?thesis by (simp add: loop_end)
qed

lemma pass_rejects:
  assumes "afterTurns j nf (loopEntry nf mdDoc) = Some (w, Some c, d)"
    and "loopBody nf w c d = Inl e"
  shows "applyNodeFilter nf mdDoc = Some (Inl e)"
proof -
  obtain w0 t0 d0 where entry: "loopEntry nf mdDoc = (w0, t0, d0)"
    by (cases "loopEntry nf mdDoc") auto
  have "applyNodeFilter nf mdDoc = applyNodeFilterLoop nf w0 t0 d0"
    by (simp add: applyNodeFilter_def entry)
  also have "\<dots> = applyNodeFilterLoop nf w (Some c) d"
    using assms(1) unfolding entry by (rule loop_afterTurns)
  finally show ?thesis using assms(2) by (simp add: loop_throw)
qed

lemma loopBody_answer:
  "filterNode nf c d = Inr answer \<Longrightarrow> replaceCurrent answer c d = Inr d' \<Longrightarrow>
   loopBody nf w c d = Inr (snd (nextNode w d), fst (nextNode w d), d')"
  by (simp add: loopBody_def split: prod.split)

lemma entry_tree: "snd (snd (loopEntry nf mdDoc)) = mdDoc"
  by (simp add: loopEntry_def split: prod.split)


text \<open>
  A pass that returns hands a consistent tree to the next filter of the pipe, so the
  hypothesis on the tree made below for one pass holds for each pass of
  \<open>applyNodeFilters\<close> once it holds for the parsed document.
\<close>

lemma loop_consistent:
  assumes "applyNodeFilterLoop nf w t d = Some r"
  shows "treeConsistent d \<longrightarrow> (\<forall>d'. r = Inr d' \<longrightarrow> treeConsistent d')"
proof (rule applyNodeFilterLoop.raw_induct
    [where P = "\<lambda>nf w t d r. treeConsistent d \<longrightarrow> (\<forall>d'. r = Inr d' \<longrightarrow> treeConsistent d')",
     OF _ assms])
  fix loop nf w t d r
  assume IH: "\<And>nf w t d r. loop nf w t d = Some r \<Longrightarrow>
                treeConsistent d \<longrightarrow> (\<forall>d'. r = Inr d' \<longrightarrow> treeConsistent d')"
    and body: "(case t of None \<Rightarrow> Some (Inr d)
                | Some currentNode \<Rightarrow>
                    (case loopBody nf w currentNode d of
                       Inl e \<Rightarrow> Some (Inl e)
                     | Inr (walker', successor, d') \<Rightarrow> loop nf walker' successor d')) = Some r"
  show "treeConsistent d \<longrightarrow> (\<forall>d'. r = Inr d' \<longrightarrow> treeConsistent d')"
  proof (cases t)
    case None
    with body show ?thesis by auto
  next
    case (Some c)
    show ?thesis
    proof (cases "loopBody nf w c d")
      case (Inl e)
      with body Some show ?thesis by auto
    next
      case (Inr s)
      obtain w1 t1 d1 where s: "s = (w1, t1, d1)" by (cases s) auto
      have step: "treeConsistent d \<Longrightarrow> treeConsistent d1"
        using Inr s by (auto dest: loopBody_consistent)
      have "loop nf w1 t1 d1 = Some r"
        using body Some Inr s by simp
      then have "treeConsistent d1 \<longrightarrow> (\<forall>d'. r = Inr d' \<longrightarrow> treeConsistent d')"
        by (rule IH)
      with step show ?thesis by blast
    qed
  qed
qed

lemma applyNodeFilter_consistent:
  assumes "treeConsistent mdDoc" and "applyNodeFilter nf mdDoc = Some (Inr d')"
  shows "treeConsistent d'"
proof -
  obtain w0 t0 where "loopEntry nf mdDoc = (w0, t0, mdDoc)"
    using entry_tree [of nf mdDoc] by (cases "loopEntry nf mdDoc") auto
  with assms(2) have "applyNodeFilterLoop nf w0 t0 mdDoc = Some (Inr d')"
    by (simp add: applyNodeFilter_def)
  with assms(1) show ?thesis using loop_consistent by blast
qed

lemma applyEach_consistent:
  "treeConsistent mdDoc \<Longrightarrow> applyEach nfs mdDoc = Some (Inr d') \<Longrightarrow> treeConsistent d'"
proof (induction nfs arbitrary: mdDoc)
  case Nil
  then show ?case by simp
next
  case (Cons nf nfs)
  then show ?case
    by (auto split: option.splits sum.splits dest: applyNodeFilter_consistent)
qed



lemma keepUnmoved_disjoint: "set rs \<inter> set xs = {} \<Longrightarrow> keepUnmoved c rs xs = xs"
  by (induction xs) (auto simp add: keepUnmoved_def)

lemma insertedBlock_distinct: "distinct rs \<Longrightarrow> c \<notin> set rs \<Longrightarrow> insertedBlock c rs = rs"
  by (simp add: insertedBlock_def filter_absent)

subsection \<open>The pass on the sample\<close>

lemmas sample_defs = loopEntry_def loopBody_def replaceCurrent_def removeCurrent_def
  removeChild_def insertBefore_def ancestor_of_root detach_def nextNode_def childWalker_def
  onceWalker_def nextSibling_def sampleDoc_def sampleDocSplit_def atOne_def atTwo_def
  atThree_def atSeven_def Let_def


lemma sample_replace: "replaceCurrent (Some [10, 11]) 2 sampleDoc = Inr sampleDocSplit"
  by (simp add: sample_defs fun_eq_iff)

lemma sample_next: "nextNode atTwo sampleDoc = (Some 3, atThree)"
  by (simp add: sample_defs)

lemma sample_next_late: "fst (nextNode atTwo sampleDocSplit) = None"
  by (simp add: sample_defs)

lemma sample_last: "fst (nextNode atThree sampleDocSplit) = None"
  by (simp add: sample_defs)


lemma sample_second: "afterTurns 1 nf (loopEntry nf sampleDoc) = Some (atTwo, Some 2, sampleDoc)"
  if "createFilterTreeWalker nf sampleDoc = childWalker 0" and "filterNode nf 1 sampleDoc = Inr None"
  using that by (simp add: sample_defs)

subsection \<open>The claims\<close>




text \<open>
  Claim C2. Let a pass have reached the node \<open>c\<close> in the tree \<open>d\<close> with the walker
  \<open>w\<close>, and let the turn throw nothing. Then the loop's state after the turn holds the
  node and the walker that \<open>nextNode\<close> gives for \<open>w\<close> on \<open>d\<close>, the tree before the
  turn changes it, together with the changed tree \<open>d'\<close>, whatever the filter answered.
  The pass goes on from exactly that node: it returns \<open>d'\<close> when that node is \<open>null\<close>;
  it rejects with what the filter throws on that node; and it returns the tree the turn
  on that node leaves when the walker has no node after it.
\<close>

theorem successor_taken_before_mutation:
  assumes "afterTurns k nf (loopEntry nf mdDoc) = Some (w, Some c, d)"
    and "filterNode nf c d = Inr answer"
    and "replaceCurrent answer c d = Inr d'"
  shows "afterTurns (Suc k) nf (loopEntry nf mdDoc)
           = Some (snd (nextNode w d), fst (nextNode w d), d')
     \<and> (fst (nextNode w d) = None \<longrightarrow> applyNodeFilter nf mdDoc = Some (Inr d'))
     \<and> (fst (nextNode w d) = Some n \<and> filterNode nf n d' = Inl e
          \<longrightarrow> applyNodeFilter nf mdDoc = Some (Inl e))
     \<and> (fst (nextNode w d) = Some n \<and> filterNode nf n d' = Inr answer'
          \<and> replaceCurrent answer' n d' = Inr d'' \<and> fst (nextNode (snd (nextNode w d)) d') = None
          \<longrightarrow> applyNodeFilter nf mdDoc = Some (Inr d''))"
proof -
  let ?w' = "snd (nextNode w d)"
  have turn: "afterTurns (Suc k) nf (loopEntry nf mdDoc) = Some (?w', fst (nextNode w d), d')"
    using assms(1) loopBody_answer [OF assms(2,3)] by (rule afterTurns_extend)
  have ends: "applyNodeFilter nf mdDoc = Some (Inr d')" if "fst (nextNode w d) = None"
    using turn that by (auto intro: pass_returns)
  have rejects: "applyNodeFilter nf mdDoc = Some (Inl e)"
    if "fst (nextNode w d) = Some n" "filterNode nf n d' = Inl e"
  proof -
    have "loopBody nf ?w' n d' = Inl e" using that(2) by (simp add: loopBody_def)
    with turn that(1) show ?thesis by (auto intro: pass_rejects)
  qed
  have goes_on: "applyNodeFilter nf mdDoc = Some (Inr d'')"
    if "fst (nextNode w d) = Some n" "filterNode nf n d' = Inr answer'"
      "replaceCurrent answer' n d' = Inr d''" "fst (nextNode ?w' d') = None"
  proof -
    have "afterTurns (Suc (Suc k)) nf (loopEntry nf mdDoc)
            = Some (snd (nextNode ?w' d'), fst (nextNode ?w' d'), d'')"
      using turn that(1) loopBody_answer [OF that(2,3)] by (auto intro: afterTurns_extend)
    with that(4) show ?thesis by (auto intro: pass_returns)
  qed
  show ?thesis using turn ends rejects goes_on by blast
qed

text \<open>
  In the sample the difference shows: at node 2 the successor taken before the change is
  node 3, and the pass goes on to ask the filter about node 3; on the changed tree node 2
  has no parent and the walker would find nothing.
\<close>

theorem successor_taken_before_mutation_witness:
  "afterTurns 1 splitTwoFailsOnThree (loopEntry splitTwoFailsOnThree sampleDoc)
     = Some (atTwo, Some 2, sampleDoc)
   \<and> filterNode splitTwoFailsOnThree 2 sampleDoc = Inr (Some [10, 11])
   \<and> replaceCurrent (Some [10, 11]) 2 sampleDoc = Inr sampleDocSplit
   \<and> nextNode atTwo sampleDoc = (Some 3, atThree)
   \<and> fst (nextNode atTwo sampleDocSplit) = None
   \<and> afterTurns 2 splitTwoFailsOnThree (loopEntry splitTwoFailsOnThree sampleDoc)
       = Some (atThree, Some 3, sampleDocSplit)
   \<and> filterNode splitTwoFailsOnThree 3 sampleDocSplit = Inl (Thrown ''lookup failed'')
   \<and> applyNodeFilter splitTwoFailsOnThree sampleDoc = Some (Inl (Thrown ''lookup failed''))
   \<and> afterTurns 1 splitTwo (loopEntry splitTwo sampleDoc) = Some (atTwo, Some 2, sampleDoc)
   \<and> filterNode splitTwo 2 sampleDoc = Inr (Some [10, 11])
   \<and> filterNode splitTwo 3 sampleDocSplit = Inr None
   \<and> fst (nextNode atThree sampleDocSplit) = None
   \<and> applyNodeFilter splitTwo sampleDoc = Some (Inr sampleDocSplit)"
proof -
  have reach: "afterTurns 1 splitTwoFailsOnThree (loopEntry splitTwoFailsOnThree sampleDoc)
     = Some (atTwo, Some 2, sampleDoc)"
    by (rule sample_second) (simp_all add: splitTwoFailsOnThree_def)
  have answer: "filterNode splitTwoFailsOnThree 2 sampleDoc = Inr (Some [10, 11])"
    by (simp add: splitTwoFailsOnThree_def)
  have fails: "filterNode splitTwoFailsOnThree 3 sampleDocSplit = Inl (Thrown ''lookup failed'')"
    by (simp add: splitTwoFailsOnThree_def)
  have a: "afterTurns 2 splitTwoFailsOnThree (loopEntry splitTwoFailsOnThree sampleDoc)
       = Some (atThree, Some 3, sampleDocSplit)"
    and b: "applyNodeFilter splitTwoFailsOnThree sampleDoc = Some (Inl (Thrown ''lookup failed''))"
    using successor_taken_before_mutation [OF reach answer sample_replace,
        of 3 "Thrown ''lookup failed''"] fails
    by (simp_all add: sample_next numeral_2_eq_2)
  have reach2: "afterTurns 1 splitTwo (loopEntry splitTwo sampleDoc) = Some (atTwo, Some 2, sampleDoc)"
    by (rule sample_second) (simp_all add: splitTwo_def)
  have answer2: "filterNode splitTwo 2 sampleDoc = Inr (Some [10, 11])"
    by (simp add: splitTwo_def)
  have quiet: "filterNode splitTwo 3 sampleDocSplit = Inr None"
    by (simp add: splitTwo_def)
  have still: "replaceCurrent None 3 sampleDocSplit = Inr sampleDocSplit"
    by (simp add: replaceCurrent_def)
  have c: "applyNodeFilter splitTwo sampleDoc = Some (Inr sampleDocSplit)"
    using successor_taken_before_mutation [OF reach2 answer2 sample_replace,
        where n = 3 and answer' = None and d'' = sampleDocSplit] quiet still sample_last
    by (simp add: sample_next)
  show ?thesis
    using reach answer sample_replace sample_next sample_next_late a fails b reach2 answer2
      quiet sample_last c
    by simp
qed

text \<open>
  Claim C3. Let the filters \<open>pre\<close> have run to their end on the parsed document, giving
  the tree \<open>d\<close>, and let the pass of the next filter \<open>nf\<close> reach, after some number \<open>k\<close>
  of turns, a node on which \<open>nf\<close>'s \<open>filter\<close> rejects with \<open>e\<close>. Then
  \<open>applyNodeFilters\<close> rejects with that same \<open>e\<close>, whatever filters \<open>post\<close> follow
  \<open>nf\<close> in the pipeline: none of them has any part in the result, and the result is no
  markup string.
\<close>

theorem filter_error_propagates:
  assumes "applyEach pre (parseFromString platform parsedMarkdown) = Some (Inr d)"
    and "afterTurns k nf (loopEntry nf d) = Some (w, Some c, d')"
    and "filterNode nf c d' = Inl e"
  shows "applyNodeFilters platform (pre @ nf # post) parsedMarkdown = Some (Inl e)
         \<and> applyNodeFilters platform (pre @ nf # post) parsedMarkdown \<noteq> Some (Inr markup)"
proof -
  obtain w0 t0 d0 where entry: "loopEntry nf d = (w0, t0, d0)"
    by (cases "loopEntry nf d") auto
  have "applyNodeFilter nf d = applyNodeFilterLoop nf w0 t0 d0"
    by (simp add: applyNodeFilter_def entry)
  also have "\<dots> = applyNodeFilterLoop nf w (Some c) d'"
    using assms(2) unfolding entry by (rule loop_afterTurns)
  also have "\<dots> = Some (Inl e)"
    using assms(3) by (intro loop_throw) (simp add: loopBody_def)
  finally have pass: "applyNodeFilter nf d = Some (Inl e)" .
  have "applyEach (pre @ nf # post) (parseFromString platform parsedMarkdown)
          = applyEach (nf # post) d"
    using assms(1) by (rule applyEach_append)
  also have "\<dots> = Some (Inl e)" using pass by simp
  finally show ?thesis by (simp add: applyNodeFilters_def)
qed

theorem filter_error_propagates_witness:
  "applyEach [matchesNothing] (parseFromString samplePlatform ''see @two now'') = Some (Inr sampleDoc)
   \<and> afterTurns 1 failsOnTwo (loopEntry failsOnTwo sampleDoc) = Some (atTwo, Some 2, sampleDoc)
   \<and> filterNode failsOnTwo 2 sampleDoc = Inl (Thrown ''lookup failed'')
   \<and> applyNodeFilters samplePlatform ([matchesNothing] @ failsOnTwo # [splitTwo]) ''see @two now''
       = Some (Inl (Thrown ''lookup failed''))"
proof -
  have pre: "applyEach [matchesNothing] (parseFromString samplePlatform ''see @two now'')
               = Some (Inr sampleDoc)"
    by (simp add: samplePlatform_def applyNodeFilter_def loopEntry_def matchesNothing_def
        applyNodeFilterLoop.simps loopBody_def replaceCurrent_def nextNode_def childWalker_def
        nextSibling_def sampleDoc_def Let_def)
  have turns: "afterTurns 1 failsOnTwo (loopEntry failsOnTwo sampleDoc)
                 = Some (atTwo, Some 2, sampleDoc)"
    by (simp add: loopEntry_def failsOnTwo_def loopBody_def replaceCurrent_def nextNode_def
        childWalker_def nextSibling_def sampleDoc_def atTwo_def Let_def)
  have throws: "filterNode failsOnTwo 2 sampleDoc = Inl (Thrown ''lookup failed'')"
    by (simp add: failsOnTwo_def)
  show ?thesis
    using filter_error_propagates [OF pre turns throws, of "[splitTwo]"] pre turns throws
    by simp
qed

text \<open>
  Without the failing filter the same pipeline returns markup: the pass of \<open>splitTwo\<close>
  visits the nodes 1, 2 and 3, replaces node 2, and ends.
\<close>

lemma applyNodeFilters_sample:
  "applyNodeFilters samplePlatform [matchesNothing, splitTwo] ''see @two now''
     = Some (Inr ''see <a>@two</a> now'')"
  by (simp add: applyNodeFilters_def samplePlatform_def applyNodeFilter_def loopEntry_def
      matchesNothing_def splitTwo_def applyNodeFilterLoop.simps loopBody_def replaceCurrent_def
      removeCurrent_def removeChild_def insertBefore_def ancestor_of_root detach_def
      nextNode_def childWalker_def nextSibling_def sampleDoc_def sampleText_def Let_def)

end
